theory Spec2Isabelle
  imports Main "HOL-Library.AList"
begin


section \<open>Exceptions\<close>

datatype exn =
    ValueError string
  | KeyError
  | RuntimeError string
  | CheckFailure string
  | NotFound
  | Forbidden
  | HTTPException

section \<open>Python strings and the library functions the bot calls\<close>

text \<open>
  The bot (\<^verbatim>\<open>src/main.py\<close>) works on Python \<^verbatim>\<open>str\<close> values. A \<^verbatim>\<open>str\<close> is modelled as a
  \<^typ>\<open>string\<close>, one \<^typ>\<open>char\<close> per code point, so the strings of the model are those over
  the code points U+0000 to U+00FF. On these, the whitespace of \<^verbatim>\<open>str.strip\<close>,
  \<^verbatim>\<open>str.split\<close> and the regex class \<^verbatim>\<open>\s\<close> is U+0009 to U+000D, U+001C to U+001F,
  U+0020, U+0085 and U+00A0; the decimal digits of the regex class \<^verbatim>\<open>\d\<close> are \<^verbatim>\<open>0\<close> to
  \<^verbatim>\<open>9\<close>, while \<^verbatim>\<open>str.isdigit\<close> also accepts the superscripts U+00B2, U+00B3 and U+00B9;
  \<^verbatim>\<open>str.lower\<close> maps \<^verbatim>\<open>A\<close> to \<^verbatim>\<open>Z\<close> and U+00C0 to U+00DE, without U+00D7, to the
  character 32 code points above.
\<close>

definition is_space :: "char \<Rightarrow> bool" where
  "is_space c \<longleftrightarrow> of_char c \<in> {9, 10, 11, 12, 13, 28, 29, 30, 31, 32, 133, 160 :: nat}"

definition is_digit :: "char \<Rightarrow> bool" where
  "is_digit c \<longleftrightarrow> c \<in> set ''0123456789''"

definition is_superscript_digit :: "char \<Rightarrow> bool" where
  "is_superscript_digit c \<longleftrightarrow> c \<in> set [CHR 0xB2, CHR 0xB3, CHR 0xB9]"

definition lower_table :: "(char \<times> char) list" where
  "lower_table =
     zip ''ABCDEFGHIJKLMNOPQRSTUVWXYZ'' ''abcdefghijklmnopqrstuvwxyz'' @
     [(CHR 0xC0, CHR 0xE0), (CHR 0xC1, CHR 0xE1), (CHR 0xC2, CHR 0xE2), (CHR 0xC3, CHR 0xE3),
      (CHR 0xC4, CHR 0xE4), (CHR 0xC5, CHR 0xE5), (CHR 0xC6, CHR 0xE6), (CHR 0xC7, CHR 0xE7),
      (CHR 0xC8, CHR 0xE8), (CHR 0xC9, CHR 0xE9), (CHR 0xCA, CHR 0xEA), (CHR 0xCB, CHR 0xEB),
      (CHR 0xCC, CHR 0xEC), (CHR 0xCD, CHR 0xED), (CHR 0xCE, CHR 0xEE), (CHR 0xCF, CHR 0xEF),
      (CHR 0xD0, CHR 0xF0), (CHR 0xD1, CHR 0xF1), (CHR 0xD2, CHR 0xF2), (CHR 0xD3, CHR 0xF3),
      (CHR 0xD4, CHR 0xF4), (CHR 0xD5, CHR 0xF5), (CHR 0xD6, CHR 0xF6), (CHR 0xD8, CHR 0xF8),
      (CHR 0xD9, CHR 0xF9), (CHR 0xDA, CHR 0xFA), (CHR 0xDB, CHR 0xFB), (CHR 0xDC, CHR 0xFC),
      (CHR 0xDD, CHR 0xFD), (CHR 0xDE, CHR 0xFE)]"

definition lower_char :: "char \<Rightarrow> char" where
  "lower_char c = (case map_of lower_table c of Some l \<Rightarrow> l | None \<Rightarrow> c)"

text \<open>\<^verbatim>\<open>s.strip()\<close>, \<^verbatim>\<open>s.lower()\<close>, \<^verbatim>\<open>s.isdigit()\<close>.\<close>

definition py_strip :: "string \<Rightarrow> string" where
  "py_strip s = rev (dropWhile is_space (rev (dropWhile is_space s)))"

definition py_lower :: "string \<Rightarrow> string" where
  "py_lower s = map lower_char s"

definition py_isdigit :: "string \<Rightarrow> bool" where
  "py_isdigit s \<longleftrightarrow> s \<noteq> [] \<and> list_all (\<lambda>c. is_digit c \<or> is_superscript_digit c) s"

text \<open>
  \<^verbatim>\<open>s.casefold()\<close> is \<^verbatim>\<open>s.lower()\<close> but for two characters: U+00DF becomes \<^verbatim>\<open>ss\<close>, and
  U+00B5 becomes U+03BC, which is no character of the model. No other character of the
  model is folded to U+03BC, so the model keeps U+00B5 in its place: two strings of the
  model have equal folds in the model exactly when Python's folds are equal.
\<close>

definition py_casefold :: "string \<Rightarrow> string" where
  "py_casefold s = concat (map (\<lambda>c. if c = CHR 0xDF then ''ss'' else [lower_char c]) s)"

text \<open>\<^verbatim>\<open>str(n)\<close> for a non-negative integer.\<close>

definition digit_char :: "nat \<Rightarrow> char" where
  "digit_char d = ''0123456789'' ! d"

function py_str :: "nat \<Rightarrow> string" where
  "py_str n = (if n < 10 then [digit_char n] else py_str (n div 10) @ [digit_char (n mod 10)])"
  by pat_completeness auto
termination
  by (relation "measure id") auto

declare py_str.simps [simp del]

text \<open>
  \<^verbatim>\<open>int(s)\<close>, for the strings the bot passes to it: a match of \<^verbatim>\<open>\d+\<close> or a string that
  \<^verbatim>\<open>str.isdigit\<close> accepts, so without sign, underscore or whitespace. It raises
  \<^verbatim>\<open>ValueError\<close> when a character is not a decimal digit, as a superscript is not, and
  when there are more digits than the interpreter's limit for the conversion, 4300 unless
  the interpreter is started with another. Leading zeros count.
\<close>

definition digit_val :: "char \<Rightarrow> nat" where
  "digit_val c = of_char c - 48"

definition decimal_value :: "string \<Rightarrow> nat" where
  "decimal_value s = foldl (\<lambda>acc c. 10 * acc + digit_val c) 0 s"

definition INT_MAX_STR_DIGITS :: nat where
  "INT_MAX_STR_DIGITS = 4300"

definition py_int :: "string \<Rightarrow> exn + nat" where
  "py_int s =
     (if s = [] \<or> \<not> list_all is_digit s then
        Inl (ValueError (''invalid literal for int() with base 10: '' @ [CHR 0x27] @ s @ [CHR 0x27]))
      else if INT_MAX_STR_DIGITS < length s then
        Inl (ValueError (''Exceeds the limit (4300 digits) for integer string conversion: '' @
                         ''value has '' @ py_str (length s) @ '' digits; use '' @
                         ''sys.set_int_max_str_digits() to increase the limit''))
      else Inr (decimal_value s))"

text \<open>\<^verbatim>\<open>s.split()\<close>: the maximal runs of non-whitespace characters, in order.\<close>

fun split_ws :: "string \<Rightarrow> string \<Rightarrow> string list" where
  "split_ws cur [] = (if cur = [] then [] else [cur])"
| "split_ws cur (c # cs) =
     (if is_space c then (if cur = [] then split_ws [] cs else cur # split_ws [] cs)
      else split_ws (cur @ [c]) cs)"

definition py_split :: "string \<Rightarrow> string list" where
  "py_split s = split_ws [] s"

text \<open>\<^verbatim>\<open>sep.join(parts)\<close>.\<close>

fun py_join :: "string \<Rightarrow> string list \<Rightarrow> string" where
  "py_join sep [] = []"
| "py_join sep [x] = x"
| "py_join sep (x # y # ys) = x @ sep @ py_join sep (y # ys)"

section \<open>Input parsers\<close>

subsection \<open>\<^verbatim>\<open>_parse_duration\<close>\<close>

text \<open>\<^verbatim>\<open>MAX_TIMEOUT_SECONDS = 60 * 60 * 24 * 28\<close> and the table \<^verbatim>\<open>TIME_MULTIPLIERS\<close>.\<close>

definition MAX_TIMEOUT_SECONDS :: nat where
  "MAX_TIMEOUT_SECONDS = 60 * 60 * 24 * 28"

definition TIME_MULTIPLIERS :: "(char \<times> nat) list" where
  "TIME_MULTIPLIERS = [(CHR ''s'', 1), (CHR ''m'', 60), (CHR ''h'', 3600), (CHR ''d'', 86400)]"

text \<open>
  \<^verbatim>\<open>re.fullmatch(r"(\d+)([smhd])?", cleaned)\<close>: the greedy \<^verbatim>\<open>\d+\<close> takes every leading
  digit (giving a digit back never helps, a digit is not a unit letter), then the rest of
  the string is empty or one unit letter. The result is the pair of groups 1 and 2.
\<close>

definition fullmatch_duration :: "string \<Rightarrow> (string \<times> char option) option" where
  "fullmatch_duration s =
     (let ds = takeWhile is_digit s; rest = dropWhile is_digit s in
      if ds = [] then None
      else (case rest of
              [] \<Rightarrow> Some (ds, None)
            | [u] \<Rightarrow> if u \<in> set ''smhd'' then Some (ds, Some u) else None
            | _ \<Rightarrow> None))"

definition parse_duration :: "string \<Rightarrow> exn + nat option" where
  "parse_duration duration =
     (let cleaned = py_lower (py_strip duration) in
      case fullmatch_duration cleaned of
        None \<Rightarrow> Inr None
      | Some (g1, g2) \<Rightarrow>
          (case py_int g1 of
             Inl e \<Rightarrow> Inl e
           | Inr v \<Rightarrow>
               (let unit = (case g2 of Some u \<Rightarrow> u | None \<Rightarrow> CHR ''m'') in
                case map_of TIME_MULTIPLIERS unit of
                  None \<Rightarrow> Inl KeyError
                | Some k \<Rightarrow> Inr (Some (v * k)))))"

subsection \<open>\<^verbatim>\<open>_normalize_course_name\<close> and \<^verbatim>\<open>_slugify\<close>\<close>

definition normalize_course_name :: "string \<Rightarrow> string" where
  "normalize_course_name name = py_join '' '' (py_split (py_strip name))"

text \<open>\<^verbatim>\<open>s.replace(" ", "-")\<close> with one-character arguments, and the class \<^verbatim>\<open>[a-z0-9-]\<close>.\<close>

definition py_replace_char :: "char \<Rightarrow> char \<Rightarrow> string \<Rightarrow> string" where
  "py_replace_char a b s = map (\<lambda>c. if c = a then b else c) s"

definition slug_char :: "char \<Rightarrow> bool" where
  "slug_char c \<longleftrightarrow> c \<in> set ''abcdefghijklmnopqrstuvwxyz0123456789-''"

definition slugify :: "string \<Rightarrow> string" where
  "slugify name =
     (let slug = py_replace_char (CHR '' '') (CHR ''-'') (py_lower (py_strip name));
          sub = map (\<lambda>c. if slug_char c then c else CHR ''-'') slug;
          cut = take 90 sub
      in if cut = [] then ''kurs'' else cut)"

subsection \<open>\<^verbatim>\<open>_extract_member_ids\<close>\<close>

text \<open>
  \<^verbatim>\<open>MENTION_PATTERN = re.compile(r"<@!?(\d+)>")\<close>. \<open>match_mention\<close> is a match of the
  pattern at the start of the string: group 1 and the text after the match. The optional
  \<^verbatim>\<open>!\<close> and the greedy \<^verbatim>\<open>\d+\<close> never need backtracking, since what follows them can
  match neither \<^verbatim>\<open>!\<close> nor a digit.
\<close>

definition match_mention :: "string \<Rightarrow> (string \<times> string) option" where
  "match_mention s =
     (case s of
        a # b # r \<Rightarrow>
          if a = CHR ''<'' \<and> b = CHR ''@'' then
            (let r' = (case r of [] \<Rightarrow> r | x # t \<Rightarrow> if x = CHR ''!'' then t else r);
                 ds = takeWhile is_digit r';
                 rest = dropWhile is_digit r'
             in if ds = [] then None
                else (case rest of
                        [] \<Rightarrow> None
                      | y # t \<Rightarrow> if y = CHR ''>'' then Some (ds, t) else None))
          else None
      | _ \<Rightarrow> None)"

lemma match_mention_shorter:
  "match_mention s = Some (g, rest) \<Longrightarrow> length rest < length s"
proof -
  assume m: "match_mention s = Some (g, rest)"
  then obtain r r' y where s: "s = CHR ''<'' # CHR ''@'' # r"
    and r': "r' = r \<or> (\<exists>x. r = x # r')"
    and d: "dropWhile is_digit r' = y # rest"
    by (auto simp: match_mention_def Let_def split: list.splits if_splits)
  have "length (dropWhile is_digit r') \<le> length r'" by (rule length_dropWhile_le)
  with d have "length rest < length r'" by simp
  moreover from r' have "length r' \<le> length r" by auto
  ultimately show ?thesis using s by simp
qed

text \<open>\<^verbatim>\<open>finditer\<close>: the matches from left to right, each search resuming after the last match.\<close>

function find_mentions :: "string \<Rightarrow> string list" where
  "find_mentions [] = []"
| "find_mentions (c # cs) =
     (case match_mention (c # cs) of
        Some (g, rest) \<Rightarrow> g # find_mentions rest
      | None \<Rightarrow> find_mentions cs)"
  by pat_completeness auto
termination
  by (relation "measure length") (auto dest: match_mention_shorter)

text \<open>
  \<^verbatim>\<open>re.split(r"[,\s]+", raw)\<close>: the pieces between the maximal runs of separators; a
  separator at either end leaves an empty piece there.
\<close>

definition is_sep :: "char \<Rightarrow> bool" where
  "is_sep c \<longleftrightarrow> c = CHR '','' \<or> is_space c"

function re_split :: "string \<Rightarrow> string \<Rightarrow> string list" where
  "re_split cur [] = [cur]"
| "re_split cur (c # cs) =
     (if is_sep c then cur # re_split [] (dropWhile is_sep cs)
      else re_split (cur @ [c]) cs)"
  by pat_completeness auto
termination
  by (relation "measure (\<lambda>(cur, s). length s)")
     (auto simp: less_Suc_eq_le length_dropWhile_le)

text \<open>\<^verbatim>\<open>int\<close> applied to each string of a list in turn; the first exception ends it.\<close>

fun int_all :: "string list \<Rightarrow> exn + nat list" where
  "int_all [] = Inr []"
| "int_all (s # ss) =
     (case py_int s of
        Inl e \<Rightarrow> Inl e
      | Inr n \<Rightarrow> (case int_all ss of Inl e \<Rightarrow> Inl e | Inr ns \<Rightarrow> Inr (n # ns)))"

text \<open>
  The source first converts group 1 of every mention, then every piece that
  \<^verbatim>\<open>str.isdigit\<close> accepts; an exception of \<^verbatim>\<open>int\<close> leaves the function. It collects the
  ids in a Python \<^verbatim>\<open>set\<close> and returns \<^verbatim>\<open>list(ids)\<close>, whose order is the set's iteration
  order. The model returns the ids without repetition, in one fixed order; nothing below
  depends on that order.
\<close>

definition extract_member_ids :: "string \<Rightarrow> exn + nat list" where
  "extract_member_ids raw =
     (case int_all (find_mentions raw) of
        Inl e \<Rightarrow> Inl e
      | Inr mentioned \<Rightarrow>
          (case int_all (filter py_isdigit (re_split [] raw)) of
             Inl e \<Rightarrow> Inl e
           | Inr listed \<Rightarrow> Inr (remdups (mentioned @ listed))))"

subsection \<open>\<^verbatim>\<open>_parse_embed_color\<close>\<close>

text \<open>\<^verbatim>\<open>discord.Color.blurple()\<close> is the colour \<^verbatim>\<open>0x5865F2\<close>; a colour is its integer value.\<close>

definition blurple :: nat where
  "blurple = 0x5865F2"

definition is_hex :: "char \<Rightarrow> bool" where
  "is_hex c \<longleftrightarrow> c \<in> set ''0123456789abcdef''"

definition hex_val :: "char \<Rightarrow> nat" where
  "hex_val c =
     (case map_of (zip ''0123456789abcdef'' [0, 1, 2, 3, 4, 5, 6, 7, 8, 9, 10, 11, 12, 13, 14, 15]) c of
        Some v \<Rightarrow> v
      | None \<Rightarrow> 0)"

definition py_int16 :: "string \<Rightarrow> nat" where
  "py_int16 s = foldl (\<lambda>acc c. 16 * acc + hex_val c) 0 s"

definition parse_embed_color :: "string option \<Rightarrow> exn + nat" where
  "parse_embed_color raw =
     (case raw of
        None \<Rightarrow> Inr blurple
      | Some r \<Rightarrow>
          if r = [] then Inr blurple
          else
            (let cleaned = py_lower (py_strip r);
                 cleaned = (case cleaned of
                              [] \<Rightarrow> cleaned
                            | c # t \<Rightarrow> if c = CHR ''#'' then t else cleaned)
             in if length cleaned \<noteq> 3 \<and> length cleaned \<noteq> 6
                then Inl (ValueError ''Hexfarbe muss 3 oder 6 Zeichen lang sein.'')
                else
                  (let cleaned = (if length cleaned = 3
                                  then concat (map (\<lambda>ch. [ch, ch]) cleaned)
                                  else cleaned)
                   in if \<not> (length cleaned = 6 \<and> list_all is_hex cleaned)
                      then Inl (ValueError ''Hexfarbe enthaelt ungueltige Zeichen.'')
                      else Inr (py_int16 cleaned))))"

section \<open>The platform directory\<close>

text \<open>
  What the bot reads from \<^verbatim>\<open>discord.py\<close>: permission flags, members, roles, channels and
  the guild that holds them. Identifiers are snowflakes, positive integers; an identifier
  \<open>0\<close> in the configuration means "not configured".
\<close>

record permissions =
  administrator :: bool
  manage_guild :: bool
  moderate_members :: bool

record member =
  member_id :: nat
  member_str :: string
  display_name :: string
  member_roles :: "nat list"
  guild_permissions :: permissions

text \<open>\<^verbatim>\<open>interaction.user\<close> is a \<^verbatim>\<open>discord.Member\<close> inside a guild and a plain \<^verbatim>\<open>discord.User\<close>
  (identifier and name) otherwise.\<close>

datatype user = User nat string | Member member

record role =
  role_id :: nat
  role_name :: string

datatype channel_kind = TextChannel | CategoryChannel | OtherChannel

record permission_overwrite =
  view_channel :: "bool option"
  manage_messages :: "bool option"

record channel =
  channel_id :: nat
  channel_name :: string
  channel_kind :: channel_kind
  channel_category :: "nat option"
  channel_overwrites :: "(nat \<times> permission_overwrite) list"

text \<open>
  A guild: its roles, the default role, its channels, the members in the local cache
  (\<^verbatim>\<open>guild.get_member\<close>), the members the platform knows (\<^verbatim>\<open>guild.fetch_member\<close>), and
  the identifier the platform gives to the next object it creates.
\<close>

record guild =
  guild_roles :: "role list"
  default_role :: role
  guild_channels :: "channel list"
  cached_members :: "member list"
  remote_members :: "member list"
  next_id :: nat

record interaction =
  interaction_user :: user
  interaction_guild :: "guild option"

text \<open>The configuration the module reads from the environment at start.\<close>

record config =
  GUILD_ID :: nat
  KURS_CATEGORY_ID :: nat
  MODERATOR_ROLE_ID :: nat
  TEACHER_ROLE_ID :: nat

text \<open>
  Whether the platform refuses a mutating call: \<open>None\<close> when the call succeeds, the
  exception it raises otherwise. The calls on a member take the member's identifier.
\<close>

record platform =
  create_role_raises :: "exn option"
  create_text_channel_raises :: "exn option"
  timeout_raises :: "nat \<Rightarrow> exn option"
  add_roles_raises :: "nat \<Rightarrow> exn option"
  remove_roles_raises :: "nat \<Rightarrow> exn option"

text \<open>
  What a command handler does, in order: its replies to the caller (all ephemeral), the
  mutating calls it makes on the directory with their arguments and audit reason, and
  the warnings it logs. A mutating call is recorded when it is made, whether or not the
  platform then refuses it.
\<close>

datatype action =
    Send_message string
  | Defer
  | Followup_send string
  | Create_role string bool string
  | Create_text_channel string nat "(nat \<times> permission_overwrite) list" string
  | Timeout nat nat string
  | Add_roles nat nat string
  | Remove_roles nat nat string
  | Log_warning string

text \<open>The run of a handler: what it did, the guild afterwards, and the exception that
  left the handler uncaught, if any.\<close>

record run =
  actions :: "action list"
  world :: "guild option"
  raised :: "exn option"

definition is_mutation :: "action \<Rightarrow> bool" where
  "is_mutation a =
     (case a of
        Create_role _ _ _ \<Rightarrow> True
      | Create_text_channel _ _ _ _ \<Rightarrow> True
      | Timeout _ _ _ \<Rightarrow> True
      | Add_roles _ _ _ \<Rightarrow> True
      | Remove_roles _ _ _ \<Rightarrow> True
      | _ \<Rightarrow> False)"

definition is_reply :: "action \<Rightarrow> bool" where
  "is_reply a =
     (case a of Send_message _ \<Rightarrow> True | Followup_send _ \<Rightarrow> True | _ \<Rightarrow> False)"

definition user_id :: "user \<Rightarrow> nat" where
  "user_id u = (case u of User i _ \<Rightarrow> i | Member m \<Rightarrow> member_id m)"

definition user_str :: "user \<Rightarrow> string" where
  "user_str u = (case u of User _ n \<Rightarrow> n | Member m \<Rightarrow> member_str m)"

definition member_mention :: "member \<Rightarrow> string" where
  "member_mention m = ''<@'' @ py_str (member_id m) @ ''>''"

definition role_mention :: "role \<Rightarrow> string" where
  "role_mention r = ''<@&'' @ py_str (role_id r) @ ''>''"

definition channel_mention :: "channel \<Rightarrow> string" where
  "channel_mention c = ''<#'' @ py_str (channel_id c) @ ''>''"

section \<open>Helpers of the handlers\<close>

definition member_has_role :: "member \<Rightarrow> nat \<Rightarrow> bool" where
  "member_has_role m rid \<longleftrightarrow> rid \<noteq> 0 \<and> list_ex (\<lambda>r. r = rid) (member_roles m)"

definition member_has_any_role :: "member \<Rightarrow> nat list \<Rightarrow> bool" where
  "member_has_any_role m role_ids \<longleftrightarrow>
     list_ex (\<lambda>rid. member_has_role m rid) (filter (\<lambda>rid. rid \<noteq> 0) role_ids)"

definition format_reason :: "interaction \<Rightarrow> string option \<Rightarrow> string" where
  "format_reason i reason =
     (let base = ''Aktion von '' @ user_str (interaction_user i) @ '' ('' @
                 py_str (user_id (interaction_user i)) @ '')''
      in case reason of
           None \<Rightarrow> base
         | Some r \<Rightarrow> if r = [] then base else base @ '': '' @ r)"

definition fetch_course_role :: "guild \<Rightarrow> string \<Rightarrow> role option" where
  "fetch_course_role g kurs_name =
     (let name = py_casefold (normalize_course_name kurs_name)
      in find (\<lambda>r. py_casefold (role_name r) = name) (guild_roles g))"

definition get_role :: "guild \<Rightarrow> nat \<Rightarrow> role option" where
  "get_role g rid = find (\<lambda>r. role_id r = rid) (guild_roles g)"

definition get_channel :: "guild \<Rightarrow> nat \<Rightarrow> channel option" where
  "get_channel g cid = find (\<lambda>c. channel_id c = cid) (guild_channels g)"

definition get_member :: "guild \<Rightarrow> nat \<Rightarrow> member option" where
  "get_member g mid = find (\<lambda>m. member_id m = mid) (cached_members g)"

definition fetch_member :: "guild \<Rightarrow> nat \<Rightarrow> exn + member" where
  "fetch_member g mid =
     (case find (\<lambda>m. member_id m = mid) (remote_members g) of
        None \<Rightarrow> Inl NotFound
      | Some m \<Rightarrow> Inr m)"

definition get_course_category :: "config \<Rightarrow> guild \<Rightarrow> exn + channel" where
  "get_course_category cfg g =
     (if KURS_CATEGORY_ID cfg = 0 then Inl (RuntimeError ''Bitte KURS_CATEGORY_ID konfigurieren.'')
      else
        (case get_channel g (KURS_CATEGORY_ID cfg) of
           None \<Rightarrow> Inl (RuntimeError ''Die angegebene KURS_CATEGORY_ID ist keine Kategorie.'')
         | Some c \<Rightarrow>
             if channel_kind c = CategoryChannel then Inr c
             else Inl (RuntimeError ''Die angegebene KURS_CATEGORY_ID ist keine Kategorie.'')))"

text \<open>\<^verbatim>\<open>_resolve_members\<close>: the warnings logged for the identifiers not found, and the members
  resolved, in the order of the identifiers. An exception of \<^verbatim>\<open>_extract_member_ids\<close> leaves
  it before anything is logged.\<close>

fun resolve_ids :: "guild \<Rightarrow> nat list \<Rightarrow> action list \<times> member list" where
  "resolve_ids g [] = ([], [])"
| "resolve_ids g (mid # ids) =
     (case get_member g mid of
        Some m \<Rightarrow> (let (ws, ms) = resolve_ids g ids in (ws, m # ms))
      | None \<Rightarrow>
          (case fetch_member g mid of
             Inl e \<Rightarrow> (let (ws, ms) = resolve_ids g ids
                       in (Log_warning (''Mitglied '' @ py_str mid @ '' nicht gefunden'') # ws, ms))
           | Inr m \<Rightarrow> (let (ws, ms) = resolve_ids g ids in (ws, m # ms))))"

definition resolve_members :: "guild \<Rightarrow> string \<Rightarrow> exn + action list \<times> member list" where
  "resolve_members g members_input =
     (case extract_member_ids members_input of
        Inl e \<Rightarrow> Inl e
      | Inr ids \<Rightarrow> Inr (resolve_ids g ids))"

section \<open>Authorization checks\<close>

text \<open>
  The predicates of \<^verbatim>\<open>_require_moderator\<close> and \<^verbatim>\<open>_require_course_staff\<close>. Each returns the
  tests it evaluated, in order, with its result: \<open>Inr True\<close> when the caller passes,
  the \<^verbatim>\<open>CheckFailure\<close> it raises otherwise. \<open>Permission_flags\<close> is the test of the
  \<^verbatim>\<open>guild_permissions\<close> flags, \<open>Role_membership ids\<close> the test whether the caller holds
  one of the roles \<open>ids\<close>.
\<close>

datatype test = Permission_flags | Role_membership "nat list"

definition require_moderator :: "config \<Rightarrow> user \<Rightarrow> test list \<times> (exn + bool)" where
  "require_moderator cfg u =
     (case u of
        Member m \<Rightarrow>
          (let perms = guild_permissions m in
           if administrator perms \<or> manage_guild perms \<or> moderate_members perms
           then ([Permission_flags], Inr True)
           else if member_has_role m (MODERATOR_ROLE_ID cfg)
           then ([Permission_flags, Role_membership [MODERATOR_ROLE_ID cfg]], Inr True)
           else ([Permission_flags, Role_membership [MODERATOR_ROLE_ID cfg]],
                 Inl (CheckFailure ''Dir fehlen die Moderationsrechte.'')))
      | User _ _ \<Rightarrow> ([], Inl (CheckFailure ''Dir fehlen die Moderationsrechte.'')))"

definition require_course_staff :: "config \<Rightarrow> user \<Rightarrow> test list \<times> (exn + bool)" where
  "require_course_staff cfg u =
     (case u of
        Member m \<Rightarrow>
          (let perms = guild_permissions m in
           if administrator perms \<or> manage_guild perms
           then ([Permission_flags], Inr True)
           else if member_has_any_role m [MODERATOR_ROLE_ID cfg, TEACHER_ROLE_ID cfg]
           then ([Permission_flags, Role_membership [MODERATOR_ROLE_ID cfg, TEACHER_ROLE_ID cfg]],
                 Inr True)
           else ([Permission_flags, Role_membership [MODERATOR_ROLE_ID cfg, TEACHER_ROLE_ID cfg]],
                 Inl (CheckFailure ''Nur Moderator:innen oder Lehrer:innen duerfen das tun.'')))
      | User _ _ \<Rightarrow>
          ([], Inl (CheckFailure ''Nur Moderator:innen oder Lehrer:innen duerfen das tun.'')))"

section \<open>Command handlers\<close>

subsection \<open>\<^verbatim>\<open>timeout\<close>\<close>

text \<open>
  The body of the handler, which runs once \<^verbatim>\<open>_require_moderator\<close> has passed. The test
  \<^verbatim>\<open>if not seconds\<close> holds for \<^verbatim>\<open>None\<close> and for \<^verbatim>\<open>0\<close>. The timeout of a member is
  not a field of the guild record: the \<open>Timeout\<close> action records the call.
\<close>

definition timeout :: "platform \<Rightarrow> interaction \<Rightarrow> member \<Rightarrow> string \<Rightarrow> string option \<Rightarrow> run" where
  "timeout p i m dauer reason =
     (let invalid =
            \<lparr>actions = [Send_message ''Bitte verwende ein gueltiges Format (z.B. 30m, 2h, 1d).''],
             world = interaction_guild i, raised = None\<rparr>
      in case parse_duration dauer of
           Inl e \<Rightarrow> \<lparr>actions = [], world = interaction_guild i, raised = Some e\<rparr>
         | Inr None \<Rightarrow> invalid
         | Inr (Some seconds) \<Rightarrow>
             if seconds = 0 then invalid
             else if seconds > MAX_TIMEOUT_SECONDS then
               \<lparr>actions = [Send_message ''Timeouts sind maximal 28 Tage lang moeglich.''],
                world = interaction_guild i, raised = None\<rparr>
             else
               (let call = Timeout (member_id m) seconds (format_reason i reason) in
                case timeout_raises p (member_id m) of
                  None \<Rightarrow>
                    \<lparr>actions = [call, Send_message (member_mention m @ '' wurde fuer '' @ dauer @
                                                     '' stummgeschaltet.'')],
                     world = interaction_guild i, raised = None\<rparr>
                | Some e \<Rightarrow>
                    if e = Forbidden then
                      \<lparr>actions = [call,
                         Send_message ''Ich habe keine Berechtigung fuer dieses Mitglied.''],
                       world = interaction_guild i, raised = None\<rparr>
                    else \<lparr>actions = [call], world = interaction_guild i, raised = Some e\<rparr>))"

subsection \<open>\<^verbatim>\<open>create_kurs\<close>\<close>

text \<open>The permission overwrites of the new channel, a dictionary keyed by role, built in
  the order of the source.\<close>

definition course_overwrites :: "config \<Rightarrow> guild \<Rightarrow> role \<Rightarrow> (nat \<times> permission_overwrite) list" where
  "course_overwrites cfg g kurs_role =
     (let ov0 = AList.update (role_id (default_role g))
                  \<lparr>view_channel = Some False, manage_messages = None\<rparr> [];
          ov1 = AList.update (role_id kurs_role)
                  \<lparr>view_channel = Some True, manage_messages = None\<rparr> ov0;
          ov2 = (case get_role g (MODERATOR_ROLE_ID cfg) of
                   None \<Rightarrow> ov1
                 | Some mod_role \<Rightarrow>
                     AList.update (role_id mod_role)
                       \<lparr>view_channel = Some True, manage_messages = Some True\<rparr> ov1)
      in case get_role g (TEACHER_ROLE_ID cfg) of
           None \<Rightarrow> ov2
         | Some teacher_role \<Rightarrow>
             AList.update (role_id teacher_role)
               \<lparr>view_channel = Some True, manage_messages = Some True\<rparr> ov2)"

text \<open>
  The body of the handler, which runs once \<^verbatim>\<open>_require_course_staff\<close> has passed. Only the
  \<^verbatim>\<open>RuntimeError\<close> of \<^verbatim>\<open>_get_course_category\<close> is caught; an exception of
  \<^verbatim>\<open>guild.create_role\<close> or \<^verbatim>\<open>guild.create_text_channel\<close> leaves the handler.
\<close>

definition create_kurs :: "config \<Rightarrow> platform \<Rightarrow> interaction \<Rightarrow> string \<Rightarrow> string option \<Rightarrow> run" where
  "create_kurs cfg p i name reason =
     (case interaction_guild i of
        None \<Rightarrow>
          \<lparr>actions = [Send_message ''Dieser Befehl funktioniert nur auf Servern.''],
           world = None, raised = None\<rparr>
      | Some g \<Rightarrow>
          (let kurs_name = normalize_course_name name in
           if kurs_name = [] then
             \<lparr>actions = [Send_message ''Bitte gib einen Kursnamen an.''],
              world = Some g, raised = None\<rparr>
           else
             (case fetch_course_role g kurs_name of
                Some existing_role \<Rightarrow>
                  \<lparr>actions = [Defer,
                     Followup_send ''Es existiert bereits eine Kursrolle mit diesem Namen.''],
                   world = Some g, raised = None\<rparr>
              | None \<Rightarrow>
                  (case get_course_category cfg g of
                     Inl e \<Rightarrow>
                       (case e of
                          RuntimeError msg \<Rightarrow>
                            \<lparr>actions = [Defer, Followup_send msg], world = Some g, raised = None\<rparr>
                        | _ \<Rightarrow> \<lparr>actions = [Defer], world = Some g, raised = Some e\<rparr>)
                   | Inr category \<Rightarrow>
                       (let role_call = Create_role kurs_name True (format_reason i reason) in
                        case create_role_raises p of
                          Some e \<Rightarrow>
                            \<lparr>actions = [Defer, role_call], world = Some g, raised = Some e\<rparr>
                        | None \<Rightarrow>
                            (let kurs_role = \<lparr>role_id = next_id g, role_name = kurs_name\<rparr>;
                                 g1 = g\<lparr>guild_roles := guild_roles g @ [kurs_role],
                                        next_id := Suc (next_id g)\<rparr>;
                                 overwrites = course_overwrites cfg g1 kurs_role;
                                 channel_call = Create_text_channel (slugify kurs_name)
                                   (channel_id category) overwrites (format_reason i reason)
                             in case create_text_channel_raises p of
                                  Some e \<Rightarrow>
                                    \<lparr>actions = [Defer, role_call, channel_call],
                                     world = Some g1, raised = Some e\<rparr>
                                | None \<Rightarrow>
                                    (let channel = \<lparr>channel_id = next_id g1,
                                           channel_name = slugify kurs_name,
                                           channel_kind = TextChannel,
                                           channel_category = Some (channel_id category),
                                           channel_overwrites = overwrites\<rparr>;
                                         g2 = g1\<lparr>guild_channels := guild_channels g1 @ [channel],
                                                 next_id := Suc (next_id g1)\<rparr>
                                     in \<lparr>actions = [Defer, role_call, channel_call,
                                            Followup_send (''Kurs **'' @ kurs_name @ ''** erstellt.'' @
                                              [CHR 0x0A] @ ''Rolle: '' @ role_mention kurs_role @
                                              [CHR 0x0A] @ ''Kanal: '' @ channel_mention channel)],
                                          world = Some g2, raised = None\<rparr>)))))))"

subsection \<open>\<^verbatim>\<open>add_member\<close> and \<^verbatim>\<open>remove_member\<close>\<close>

text \<open>The effect of a successful \<^verbatim>\<open>member.add_roles\<close> or \<^verbatim>\<open>member.remove_roles\<close> on the
  directory.\<close>

definition with_roles :: "nat \<Rightarrow> (nat list \<Rightarrow> nat list) \<Rightarrow> member \<Rightarrow> member" where
  "with_roles mid f m = (if member_id m = mid then m\<lparr>member_roles := f (member_roles m)\<rparr> else m)"

definition update_member_roles :: "guild \<Rightarrow> nat \<Rightarrow> (nat list \<Rightarrow> nat list) \<Rightarrow> guild" where
  "update_member_roles g mid f =
     g\<lparr>cached_members := map (with_roles mid f) (cached_members g),
       remote_members := map (with_roles mid f) (remote_members g)\<rparr>"

text \<open>
  The loops over the resolved members. The result is what the loop did, the display
  names appended to \<^verbatim>\<open>updated\<close> (\<^verbatim>\<open>removed\<close>), the guild afterwards and the exception that
  ended the loop, if any: only \<^verbatim>\<open>discord.Forbidden\<close> is caught.
\<close>

fun add_loop ::
  "platform \<Rightarrow> string \<Rightarrow> role \<Rightarrow> member list \<Rightarrow> guild \<Rightarrow>
   action list \<times> string list \<times> guild \<times> exn option" where
  "add_loop p rs kurs_role [] g = ([], [], g, None)"
| "add_loop p rs kurs_role (m # ms) g =
     (if role_id kurs_role \<in> set (member_roles m) then add_loop p rs kurs_role ms g
      else
        (let call = Add_roles (member_id m) (role_id kurs_role) rs in
         case add_roles_raises p (member_id m) of
           None \<Rightarrow>
             (let g1 = update_member_roles g (member_id m) (\<lambda>r. r @ [role_id kurs_role]);
                  (acts, updated, g2, e) = add_loop p rs kurs_role ms g1
              in (call # acts, display_name m # updated, g2, e))
         | Some x \<Rightarrow>
             if x = Forbidden then
               (let (acts, updated, g2, e) = add_loop p rs kurs_role ms g
                in (call # Log_warning (''Rolle konnte nicht an '' @ member_str m @
                      '' vergeben werden (fehlende Berechtigung)'') # acts, updated, g2, e))
             else ([call], [], g, Some x)))"

fun remove_loop ::
  "platform \<Rightarrow> string \<Rightarrow> role \<Rightarrow> member list \<Rightarrow> guild \<Rightarrow>
   action list \<times> string list \<times> guild \<times> exn option" where
  "remove_loop p rs kurs_role [] g = ([], [], g, None)"
| "remove_loop p rs kurs_role (m # ms) g =
     (if role_id kurs_role \<notin> set (member_roles m) then remove_loop p rs kurs_role ms g
      else
        (let call = Remove_roles (member_id m) (role_id kurs_role) rs in
         case remove_roles_raises p (member_id m) of
           None \<Rightarrow>
             (let g1 = update_member_roles g (member_id m) (filter (\<lambda>r. r \<noteq> role_id kurs_role));
                  (acts, removed, g2, e) = remove_loop p rs kurs_role ms g1
              in (call # acts, display_name m # removed, g2, e))
         | Some x \<Rightarrow>
             if x = Forbidden then
               (let (acts, removed, g2, e) = remove_loop p rs kurs_role ms g
                in (call # Log_warning (''Rolle konnte nicht von '' @ member_str m @
                      '' entfernt werden (fehlende Berechtigung)'') # acts, removed, g2, e))
             else ([call], [], g, Some x)))"

definition add_member :: "platform \<Rightarrow> interaction \<Rightarrow> string \<Rightarrow> string \<Rightarrow> string option \<Rightarrow> run" where
  "add_member p i kurs_name members reason =
     (case interaction_guild i of
        None \<Rightarrow>
          \<lparr>actions = [Send_message ''Dieser Befehl funktioniert nur auf Servern.''],
           world = None, raised = None\<rparr>
      | Some g \<Rightarrow>
          (case fetch_course_role g kurs_name of
             None \<Rightarrow>
               \<lparr>actions = [Send_message ''Keine Kursrolle mit diesem Namen gefunden.''],
                world = Some g, raised = None\<rparr>
           | Some kurs_role \<Rightarrow>
               (case resolve_members g members of
                  Inl e \<Rightarrow> \<lparr>actions = [], world = Some g, raised = Some e\<rparr>
                | Inr (warnings, resolved) \<Rightarrow>
                    if resolved = [] then
                      \<lparr>actions = warnings @ [Send_message ''Ich konnte keine Mitglieder finden.''],
                       world = Some g, raised = None\<rparr>
                    else
                      (let (acts, updated, g', e) =
                             add_loop p (format_reason i reason) kurs_role resolved g
                       in case e of
                            Some x \<Rightarrow>
                              \<lparr>actions = warnings @ [Defer] @ acts, world = Some g', raised = Some x\<rparr>
                          | None \<Rightarrow>
                              \<lparr>actions = warnings @ [Defer] @ acts @
                                 [Followup_send
                                    (if updated \<noteq> [] then
                                       py_str (length updated) @ '' Mitglied(er) hinzugefuegt: '' @
                                       py_join '', '' updated
                                     else ''Niemand wurde hinzugefuegt (hatten evtl. schon die Rolle).'')],
                               world = Some g', raised = None\<rparr>))))"

definition remove_member :: "platform \<Rightarrow> interaction \<Rightarrow> string \<Rightarrow> string \<Rightarrow> string option \<Rightarrow> run" where
  "remove_member p i kurs_name members reason =
     (case interaction_guild i of
        None \<Rightarrow>
          \<lparr>actions = [Send_message ''Dieser Befehl funktioniert nur auf Servern.''],
           world = None, raised = None\<rparr>
      | Some g \<Rightarrow>
          (case fetch_course_role g kurs_name of
             None \<Rightarrow>
               \<lparr>actions = [Send_message ''Keine Kursrolle mit diesem Namen gefunden.''],
                world = Some g, raised = None\<rparr>
           | Some kurs_role \<Rightarrow>
               (case resolve_members g members of
                  Inl e \<Rightarrow> \<lparr>actions = [], world = Some g, raised = Some e\<rparr>
                | Inr (warnings, resolved) \<Rightarrow>
                    if resolved = [] then
                      \<lparr>actions = warnings @ [Send_message ''Ich konnte keine Mitglieder finden.''],
                       world = Some g, raised = None\<rparr>
                    else
                      (let (acts, removed, g', e) =
                             remove_loop p (format_reason i reason) kurs_role resolved g
                       in case e of
                            Some x \<Rightarrow>
                              \<lparr>actions = warnings @ [Defer] @ acts, world = Some g', raised = Some x\<rparr>
                          | None \<Rightarrow>
                              \<lparr>actions = warnings @ [Defer] @ acts @
                                 [Followup_send
                                    (if removed \<noteq> [] then
                                       py_str (length removed) @ '' Mitglied(er) entfernt: '' @
                                       py_join '', '' removed
                                     else ''Niemand wurde entfernt (hatte evtl. die Rolle nicht).'')],
                               world = Some g', raised = None\<rparr>))))"

section \<open>The statements of the specification\<close>



text \<open>
  Member selectors in the specification's words. A decimal numeral is a non-empty string
  of decimal digits. The string \<open>raw\<close> mentions \<open>ds\<close> when it contains the platform's mention
  \<^verbatim>\<open><@ds>\<close> or \<^verbatim>\<open><@!ds>\<close> of the numeral \<open>ds\<close>. A token of \<open>raw\<close> is a non-empty piece
  without comma or whitespace that is delimited, on each side, by a comma, by whitespace
  or by the end of \<open>raw\<close>.
\<close>

definition decimal :: "string \<Rightarrow> bool" where
  "decimal ds \<longleftrightarrow> ds \<noteq> [] \<and> list_all is_digit ds"

definition mention_text :: "bool \<Rightarrow> string \<Rightarrow> string" where
  "mention_text bang ds = (if bang then ''<@!'' else ''<@'') @ ds @ ''>''"

definition mentions :: "string \<Rightarrow> string \<Rightarrow> bool" where
  "mentions raw ds \<longleftrightarrow>
     decimal ds \<and> (\<exists>bang pre post. raw = pre @ mention_text bang ds @ post)"


text \<open>
  The colour syntax in the specification's words: a leading \<^verbatim>\<open>#\<close> is stripped, a string
  of length 3 is expanded by doubling each character, a string of length 6 stands for
  itself, and the result must be six characters of \<^verbatim>\<open>[0-9a-f]\<close>. \<open>color_digits r\<close> is
  the six hex digits that the input \<open>r\<close> denotes, if any.
\<close>

definition strip_hash :: "string \<Rightarrow> string" where
  "strip_hash s = (case s of [] \<Rightarrow> [] | c # t \<Rightarrow> if c = CHR ''#'' then t else s)"

definition expand_hex :: "string \<Rightarrow> string option" where
  "expand_hex s =
     (if length s = 3 then Some (concat (map (\<lambda>c. [c, c]) s))
      else if length s = 6 then Some s else None)"

definition hex6 :: "string \<Rightarrow> bool" where
  "hex6 s \<longleftrightarrow> length s = 6 \<and> list_all is_hex s"

definition color_digits :: "string \<Rightarrow> string option" where
  "color_digits r =
     (case expand_hex (strip_hash (py_lower (py_strip r))) of
        None \<Rightarrow> None
      | Some h \<Rightarrow> if hex6 h then Some h else None)"

text \<open>
  Enrollment in the specification's words: a member is in the target state of an add when
  the member holds the course role, and of a remove when the member does not. The member
  that a mutating call is made on, if it is a call on a member.
\<close>

definition holds :: "role \<Rightarrow> member \<Rightarrow> bool" where
  "holds kurs_role m \<longleftrightarrow> role_id kurs_role \<in> set (member_roles m)"

definition action_member :: "action \<Rightarrow> nat option" where
  "action_member a =
     (case a of
        Timeout mid _ _ \<Rightarrow> Some mid
      | Add_roles mid _ _ \<Rightarrow> Some mid
      | Remove_roles mid _ _ \<Rightarrow> Some mid
      | _ \<Rightarrow> None)"

text \<open>
  The members that an add (a remove) has to change, and among them those for whom the
  platform accepts the change.
\<close>

definition to_add :: "role \<Rightarrow> member list \<Rightarrow> member list" where
  "to_add kurs_role ms = filter (\<lambda>m. \<not> holds kurs_role m) ms"

definition added :: "platform \<Rightarrow> role \<Rightarrow> member list \<Rightarrow> member list" where
  "added p kurs_role ms =
     filter (\<lambda>m. \<not> holds kurs_role m \<and> add_roles_raises p (member_id m) = None) ms"

definition to_remove :: "role \<Rightarrow> member list \<Rightarrow> member list" where
  "to_remove kurs_role ms = filter (\<lambda>m. holds kurs_role m) ms"

definition removed :: "platform \<Rightarrow> role \<Rightarrow> member list \<Rightarrow> member list" where
  "removed p kurs_role ms =
     filter (\<lambda>m. holds kurs_role m \<and> remove_roles_raises p (member_id m) = None) ms"

text \<open>The directory after the role was given to (taken from) each member of a list.\<close>

definition grant_all :: "role \<Rightarrow> member list \<Rightarrow> guild \<Rightarrow> guild" where
  "grant_all kurs_role ms g =
     foldl (\<lambda>g m. update_member_roles g (member_id m) (\<lambda>r. r @ [role_id kurs_role])) g ms"

definition revoke_all :: "role \<Rightarrow> member list \<Rightarrow> guild \<Rightarrow> guild" where
  "revoke_all kurs_role ms g =
     foldl (\<lambda>g m. update_member_roles g (member_id m) (filter (\<lambda>r. r \<noteq> role_id kurs_role))) g ms"

section \<open>An example directory\<close>

text \<open>
  A small guild on which the theorems below are instantiated: the default role, the two
  staff roles, one course role, the course category, and three members, of whom \<open>ben\<close>
  holds the course role and \<open>carl\<close> the teacher role.
\<close>

definition no_permissions :: permissions where
  "no_permissions = \<lparr>administrator = False, manage_guild = False, moderate_members = False\<rparr>"

definition anna :: member where
  "anna = \<lparr>member_id = 7, member_str = ''anna'', display_name = ''Anna'',
            member_roles = [1], guild_permissions = no_permissions\<rparr>"

definition ben :: member where
  "ben = \<lparr>member_id = 8, member_str = ''ben'', display_name = ''Ben'',
           member_roles = [1, 100], guild_permissions = no_permissions\<rparr>"

definition carl :: member where
  "carl = \<lparr>member_id = 9, member_str = ''carl'', display_name = ''Carl'',
            member_roles = [1, 11], guild_permissions = no_permissions\<rparr>"

definition example_config :: config where
  "example_config =
     \<lparr>GUILD_ID = 1, KURS_CATEGORY_ID = 50, MODERATOR_ROLE_ID = 10, TEACHER_ROLE_ID = 11\<rparr>"

definition example_guild :: guild where
  "example_guild =
     \<lparr>guild_roles = [\<lparr>role_id = 1, role_name = ''@everyone''\<rparr>,
                      \<lparr>role_id = 10, role_name = ''Moderator''\<rparr>,
                      \<lparr>role_id = 11, role_name = ''Teacher''\<rparr>,
                      \<lparr>role_id = 100, role_name = ''Mathe 1''\<rparr>],
      default_role = \<lparr>role_id = 1, role_name = ''@everyone''\<rparr>,
      guild_channels = [\<lparr>channel_id = 50, channel_name = ''Kurse'',
                          channel_kind = CategoryChannel, channel_category = None,
                          channel_overwrites = []\<rparr>],
      cached_members = [anna, ben, carl],
      remote_members = [anna, ben, carl],
      next_id = 200\<rparr>"

definition example_interaction :: interaction where
  "example_interaction = \<lparr>interaction_user = Member carl, interaction_guild = Some example_guild\<rparr>"

text \<open>A platform that accepts every call, one that refuses to create channels, and one that
  refuses every change of a member's roles.\<close>

definition permissive :: platform where
  "permissive =
     \<lparr>create_role_raises = None, create_text_channel_raises = None,
      timeout_raises = (\<lambda>_. None), add_roles_raises = (\<lambda>_. None),
      remove_roles_raises = (\<lambda>_. None)\<rparr>"

definition no_channel_permission :: platform where
  "no_channel_permission =
     \<lparr>create_role_raises = None, create_text_channel_raises = Some Forbidden,
      timeout_raises = (\<lambda>_. None), add_roles_raises = (\<lambda>_. None),
      remove_roles_raises = (\<lambda>_. None)\<rparr>"

definition no_role_permission :: platform where
  "no_role_permission =
     \<lparr>create_role_raises = None, create_text_channel_raises = None,
      timeout_raises = (\<lambda>_. None), add_roles_raises = (\<lambda>_. Some Forbidden),
      remove_roles_raises = (\<lambda>_. Some Forbidden)\<rparr>"

section \<open>Evaluation of the library functions\<close>

lemmas str_defs = py_strip_def py_lower_def py_casefold_def lower_char_def lower_table_def
  is_space_def is_digit_def is_superscript_digit_def py_int_def decimal_value_def digit_val_def
  INT_MAX_STR_DIGITS_def py_isdigit_def py_split_def digit_char_def

lemmas duration_defs = parse_duration_def fullmatch_duration_def TIME_MULTIPLIERS_def

lemmas example_defs = example_interaction_def example_guild_def example_config_def
  anna_def ben_def carl_def no_permissions_def permissive_def no_channel_permission_def
  no_role_permission_def

section \<open>Durations\<close>




























section \<open>The timeout handler\<close>

lemma timeout_invalid:
  assumes "parse_duration dauer = Inr None \<or> parse_duration dauer = Inr (Some 0)"
  shows "timeout p i m dauer reason =
    \<lparr>actions = [Send_message ''Bitte verwende ein gueltiges Format (z.B. 30m, 2h, 1d).''],
     world = interaction_guild i, raised = None\<rparr>"
  using assms by (auto simp: timeout_def)

lemma timeout_too_long:
  assumes "parse_duration dauer = Inr (Some n)" and "MAX_TIMEOUT_SECONDS < n"
  shows "timeout p i m dauer reason =
    \<lparr>actions = [Send_message ''Timeouts sind maximal 28 Tage lang moeglich.''],
     world = interaction_guild i, raised = None\<rparr>"
  using assms by (simp add: timeout_def)

lemma timeout_attempted:
  assumes "parse_duration dauer = Inr (Some n)" and "0 < n" and "n \<le> MAX_TIMEOUT_SECONDS"
  shows "\<exists>rest. actions (timeout p i m dauer reason) =
           Timeout (member_id m) n (format_reason i reason) # rest"
  using assms by (simp add: timeout_def Let_def split: option.splits)

lemma timeout_calls:
  assumes "Timeout k n r \<in> set (actions (timeout p i m dauer reason))"
  shows "parse_duration dauer = Inr (Some n) \<and> 0 < n \<and> n \<le> MAX_TIMEOUT_SECONDS"
  using assms
  by (auto simp: timeout_def Let_def split: sum.splits option.splits if_splits)

lemma max_timeout_value: "MAX_TIMEOUT_SECONDS = 2419200"
  by (simp add: MAX_TIMEOUT_SECONDS_def)

lemma parse_28d: "parse_duration ''28d'' = Inr (Some 2419200)"
  by (simp add: duration_defs str_defs)

text \<open>
  C5. The timeout handler answers every parsed duration above 28 days (2419200 seconds)
  with the validation reply and makes no mutating call; \<^verbatim>\<open>28d\<close> parses to exactly the
  ceiling, passes the check, and the timeout call is made with 2419200 seconds.
\<close>

theorem timeout_ceiling:
  "(parse_duration dauer = Inr (Some n) \<and> 2419200 < n \<longrightarrow>
      timeout p i m dauer reason =
        \<lparr>actions = [Send_message ''Timeouts sind maximal 28 Tage lang moeglich.''],
         world = interaction_guild i, raised = None\<rparr> \<and>
      filter is_mutation (actions (timeout p i m dauer reason)) = []) \<and>
   MAX_TIMEOUT_SECONDS = 2419200 \<and>
   parse_duration ''28d'' = Inr (Some 2419200) \<and>
   (\<exists>rest. actions (timeout p i m ''28d'' reason) =
      Timeout (member_id m) 2419200 (format_reason i reason) # rest)"
proof (intro conjI impI)
  assume a: "parse_duration dauer = Inr (Some n) \<and> 2419200 < n"
  then have "MAX_TIMEOUT_SECONDS < n" by (simp add: max_timeout_value)
  with a have r: "timeout p i m dauer reason =
        \<lparr>actions = [Send_message ''Timeouts sind maximal 28 Tage lang moeglich.''],
         world = interaction_guild i, raised = None\<rparr>"
    using timeout_too_long by blast
  then show "timeout p i m dauer reason =
        \<lparr>actions = [Send_message ''Timeouts sind maximal 28 Tage lang moeglich.''],
         world = interaction_guild i, raised = None\<rparr>" .
  from r show "filter is_mutation (actions (timeout p i m dauer reason)) = []"
    by (simp add: is_mutation_def)
next
  show "MAX_TIMEOUT_SECONDS = 2419200" by (rule max_timeout_value)
  show "parse_duration ''28d'' = Inr (Some 2419200)" by (rule parse_28d)
  show "\<exists>rest. actions (timeout p i m ''28d'' reason) =
      Timeout (member_id m) 2419200 (format_reason i reason) # rest"
    using timeout_attempted [OF parse_28d, of p i m reason] by (simp add: max_timeout_value)
qed

theorem timeout_ceiling_witness:
  "parse_duration ''29d'' = Inr (Some 2505600) \<and> (2419200 :: nat) < 2505600 \<and>
   timeout permissive example_interaction anna ''29d'' None =
     \<lparr>actions = [Send_message ''Timeouts sind maximal 28 Tage lang moeglich.''],
      world = Some example_guild, raised = None\<rparr>"
proof -
  have a: "parse_duration ''29d'' = Inr (Some 2505600)"
    by (simp add: duration_defs str_defs)
  have b: "(2419200 :: nat) < 2505600" by simp
  from a b timeout_ceiling [of "''29d''" 2505600 permissive example_interaction anna None]
  have "timeout permissive example_interaction anna ''29d'' None =
     \<lparr>actions = [Send_message ''Timeouts sind maximal 28 Tage lang moeglich.''],
      world = interaction_guild example_interaction, raised = None\<rparr>" by blast
  with a b show ?thesis by (simp add: example_interaction_def)
qed

lemma parse_zero_examples:
  "parse_duration ''0'' = Inr (Some 0)" "parse_duration ''0s'' = Inr (Some 0)"
  "parse_duration ''0m'' = Inr (Some 0)" "parse_duration ''0d'' = Inr (Some 0)"
  by (simp_all add: duration_defs str_defs)

lemma parse_abc: "parse_duration ''abc'' = Inr None"
  by (simp add: duration_defs str_defs)

text \<open>
  C10. A duration that parses to 0 seconds gets the reply of an unparseable duration, the
  invalid-format message, and no mutating call is made; \<^verbatim>\<open>0\<close>, \<^verbatim>\<open>0s\<close>, \<^verbatim>\<open>0m\<close> and
  \<^verbatim>\<open>0d\<close> parse to 0 and not to \<open>None\<close>. No input makes the handler call a timeout of
  0 seconds.
\<close>

theorem timeout_zero_rejected:
  "(parse_duration dauer = Inr (Some 0) \<longrightarrow>
      timeout p i m dauer reason =
        \<lparr>actions = [Send_message ''Bitte verwende ein gueltiges Format (z.B. 30m, 2h, 1d).''],
         world = interaction_guild i, raised = None\<rparr> \<and>
      timeout p i m dauer reason = timeout p i m ''abc'' reason \<and>
      filter is_mutation (actions (timeout p i m dauer reason)) = []) \<and>
   parse_duration ''abc'' = Inr None \<and>
   parse_duration ''0'' = Inr (Some 0) \<and> parse_duration ''0s'' = Inr (Some 0) \<and>
   parse_duration ''0m'' = Inr (Some 0) \<and> parse_duration ''0d'' = Inr (Some 0) \<and>
   (\<forall>k r. Timeout k 0 r \<notin> set (actions (timeout p i m dauer reason)))"
proof (intro conjI impI allI)
  assume z: "parse_duration dauer = Inr (Some 0)"
  then have r: "timeout p i m dauer reason =
        \<lparr>actions = [Send_message ''Bitte verwende ein gueltiges Format (z.B. 30m, 2h, 1d).''],
         world = interaction_guild i, raised = None\<rparr>"
    by (simp add: timeout_invalid)
  then show "timeout p i m dauer reason =
        \<lparr>actions = [Send_message ''Bitte verwende ein gueltiges Format (z.B. 30m, 2h, 1d).''],
         world = interaction_guild i, raised = None\<rparr>" .
  from r show "timeout p i m dauer reason = timeout p i m ''abc'' reason"
    by (simp add: timeout_invalid parse_abc)
  from r show "filter is_mutation (actions (timeout p i m dauer reason)) = []"
    by (simp add: is_mutation_def)
next
  show "parse_duration ''abc'' = Inr None" by (rule parse_abc)
  show "parse_duration ''0'' = Inr (Some 0)" by (rule parse_zero_examples)
  show "parse_duration ''0s'' = Inr (Some 0)" by (rule parse_zero_examples)
  show "parse_duration ''0m'' = Inr (Some 0)" by (rule parse_zero_examples)
  show "parse_duration ''0d'' = Inr (Some 0)" by (rule parse_zero_examples)
  show "Timeout k 0 r \<notin> set (actions (timeout p i m dauer reason))" for k r
    using timeout_calls [of k 0 r p i m dauer reason] by blast
qed

theorem timeout_zero_rejected_witness:
  "parse_duration '' 000H '' = Inr (Some 0) \<and>
   timeout permissive example_interaction anna '' 000H '' None =
     \<lparr>actions = [Send_message ''Bitte verwende ein gueltiges Format (z.B. 30m, 2h, 1d).''],
      world = Some example_guild, raised = None\<rparr>"
proof -
  have a: "parse_duration '' 000H '' = Inr (Some 0)"
    by (simp add: duration_defs str_defs)
  with timeout_zero_rejected [of "'' 000H ''" permissive example_interaction anna None]
  have "timeout permissive example_interaction anna '' 000H '' None =
     \<lparr>actions = [Send_message ''Bitte verwende ein gueltiges Format (z.B. 30m, 2h, 1d).''],
      world = interaction_guild example_interaction, raised = None\<rparr>" by blast
  with a show ?thesis by (simp add: example_interaction_def)
qed

section \<open>Slugs\<close>

lemma slug_char_dash: "slug_char (CHR ''-'')"
  by (simp add: slug_char_def)

lemma slug_substitution:
  "list_all slug_char (map (\<lambda>c. if slug_char c then c else CHR ''-'') s)"
  by (induction s) (simp_all add: slug_char_dash)

lemma list_all_take: "list_all P xs \<Longrightarrow> list_all P (take n xs)"
  by (auto simp: list_all_iff dest: in_set_takeD)

lemma slugify_empty: "py_strip name = [] \<Longrightarrow> slugify name = ''kurs''"
  by (simp add: slugify_def py_lower_def py_replace_char_def)

lemma slugify_nonempty:
  assumes "py_strip name \<noteq> []"
  shows "slugify name =
    take 90 (map (\<lambda>c. if slug_char c then c else CHR ''-'')
      (py_replace_char (CHR '' '') (CHR ''-'') (py_lower (py_strip name))))"
  using assms by (simp add: slugify_def py_lower_def py_replace_char_def)

lemma slugify_length: "py_strip name \<noteq> [] \<Longrightarrow> length (slugify name) = min 90 (length (py_strip name))"
  by (simp add: slugify_nonempty py_lower_def py_replace_char_def min.commute)

text \<open>
  C6. For every input the slug has at most 90 characters, is not empty and consists of
  characters of \<^verbatim>\<open>[a-z0-9-]\<close> only; it is \<^verbatim>\<open>kurs\<close> when nothing is left after stripping.
  The substitution is character by character, so the length of the stripped input is
  kept up to the cut at 90, and dashes are not collapsed.
\<close>

theorem slugify_shape:
  "length (slugify name) \<le> 90 \<and> slugify name \<noteq> [] \<and> list_all slug_char (slugify name) \<and>
   (py_strip name = [] \<longrightarrow> slugify name = ''kurs'') \<and>
   (py_strip name \<noteq> [] \<longrightarrow> length (slugify name) = min 90 (length (py_strip name))) \<and>
   slugify ''  Intro to   Algebra!! '' = ''intro-to---algebra--''"
proof (intro conjI impI)
  show "length (slugify name) \<le> 90"
    by (cases "py_strip name = []") (simp_all add: slugify_empty slugify_length)
  show "slugify name \<noteq> []"
  proof (cases "py_strip name = []")
    case True
    then show ?thesis by (simp add: slugify_empty)
  next
    case False
    then have "length (slugify name) = min 90 (length (py_strip name))" by (rule slugify_length)
    moreover from False have "0 < length (py_strip name)" by simp
    ultimately have "0 < length (slugify name)" by simp
    then show ?thesis by simp
  qed
  show "list_all slug_char (slugify name)"
  proof (cases "py_strip name = []")
    case True
    then show ?thesis by (simp add: slugify_empty slug_char_def)
  next
    case False
    then have "slugify name =
      take 90 (map (\<lambda>c. if slug_char c then c else CHR ''-'')
        (py_replace_char (CHR '' '') (CHR ''-'') (py_lower (py_strip name))))"
      by (rule slugify_nonempty)
    moreover have "list_all slug_char (take 90 (map (\<lambda>c. if slug_char c then c else CHR ''-'')
        (py_replace_char (CHR '' '') (CHR ''-'') (py_lower (py_strip name)))))"
      by (rule list_all_take) (rule slug_substitution)
    ultimately show ?thesis by simp
  qed
  show "slugify name = ''kurs''" if "py_strip name = []" using that by (rule slugify_empty)
  show "length (slugify name) = min 90 (length (py_strip name))" if "py_strip name \<noteq> []"
    using that by (rule slugify_length)
  show "slugify ''  Intro to   Algebra!! '' = ''intro-to---algebra--''"
    by (simp add: slugify_def py_replace_char_def slug_char_def str_defs)
qed

theorem slugify_shape_witness:
  "py_strip ''   '' = [] \<and> slugify ''   '' = ''kurs'' \<and>
   py_strip '' A b '' = ''A b'' \<and> length (slugify '' A b '') = 3"
proof -
  have e: "py_strip ''   '' = []" by (simp add: str_defs)
  have n: "py_strip '' A b '' = ''A b''" by (simp add: str_defs)
  from e slugify_shape [of "''   ''"] have k: "slugify ''   '' = ''kurs''" by blast
  from n have "py_strip '' A b '' \<noteq> []" by simp
  with slugify_shape [of "'' A b ''"]
  have "length (slugify '' A b '') = min 90 (length (py_strip '' A b ''))" by blast
  with n have "length (slugify '' A b '') = 3" by simp
  with e k n show ?thesis by (intro conjI)
qed

section \<open>Authorization\<close>

lemma require_moderator_flags:
  assumes "administrator (guild_permissions m) \<or> manage_guild (guild_permissions m) \<or>
           moderate_members (guild_permissions m)"
  shows "require_moderator cfg (Member m) = ([Permission_flags], Inr True)"
  using assms by (auto simp: require_moderator_def Let_def)

lemma require_course_staff_flags:
  assumes "administrator (guild_permissions m) \<or> manage_guild (guild_permissions m)"
  shows "require_course_staff cfg (Member m) = ([Permission_flags], Inr True)"
  using assms by (auto simp: require_course_staff_def Let_def)

lemma require_moderator_tests:
  "fst (require_moderator cfg u) = [] \<or> fst (require_moderator cfg u) = [Permission_flags] \<or>
   fst (require_moderator cfg u) = [Permission_flags, Role_membership [MODERATOR_ROLE_ID cfg]]"
  by (cases u) (simp_all add: require_moderator_def Let_def)

lemma require_course_staff_tests:
  "fst (require_course_staff cfg u) = [] \<or> fst (require_course_staff cfg u) = [Permission_flags] \<or>
   fst (require_course_staff cfg u) =
     [Permission_flags, Role_membership [MODERATOR_ROLE_ID cfg, TEACHER_ROLE_ID cfg]]"
  by (cases u) (simp_all add: require_course_staff_def Let_def)

lemma teacher_only:
  assumes "\<not> administrator (guild_permissions m)" and "\<not> manage_guild (guild_permissions m)"
    and "\<not> moderate_members (guild_permissions m)"
    and "TEACHER_ROLE_ID cfg \<noteq> 0" and "TEACHER_ROLE_ID cfg \<in> set (member_roles m)"
    and "MODERATOR_ROLE_ID cfg \<notin> set (member_roles m)"
  shows "snd (require_course_staff cfg (Member m)) = Inr True"
    and "snd (require_moderator cfg (Member m)) = Inl (CheckFailure ''Dir fehlen die Moderationsrechte.'')"
  using assms
  by (auto simp: require_course_staff_def require_moderator_def Let_def member_has_any_role_def
      member_has_role_def list_ex_iff)


text \<open>
  C3. A caller with the administrator flag passes both checks whatever roles the caller
  holds, and none at all; a caller without any of the three flags who holds the
  configured Teacher role and not the Moderator role passes the course-staff check and
  fails the moderator check. Each check tests the permission flags first: a test of role
  membership is only ever the second test, and it is not made when the flags grant.
\<close>

theorem authorization_checks:
  "(administrator (guild_permissions m) \<longrightarrow>
      require_moderator cfg (Member m) = ([Permission_flags], Inr True) \<and>
      require_course_staff cfg (Member m) = ([Permission_flags], Inr True)) \<and>
   (\<not> administrator (guild_permissions m) \<and> \<not> manage_guild (guild_permissions m) \<and>
    \<not> moderate_members (guild_permissions m) \<and> TEACHER_ROLE_ID cfg \<noteq> 0 \<and>
    TEACHER_ROLE_ID cfg \<in> set (member_roles m) \<and> MODERATOR_ROLE_ID cfg \<notin> set (member_roles m) \<longrightarrow>
      snd (require_course_staff cfg (Member m)) = Inr True \<and>
      snd (require_moderator cfg (Member m)) =
        Inl (CheckFailure ''Dir fehlen die Moderationsrechte.'')) \<and>
   (fst (require_moderator cfg u) = [] \<or> fst (require_moderator cfg u) = [Permission_flags] \<or>
    fst (require_moderator cfg u) =
      [Permission_flags, Role_membership [MODERATOR_ROLE_ID cfg]]) \<and>
   (fst (require_course_staff cfg u) = [] \<or> fst (require_course_staff cfg u) = [Permission_flags] \<or>
    fst (require_course_staff cfg u) =
      [Permission_flags, Role_membership [MODERATOR_ROLE_ID cfg, TEACHER_ROLE_ID cfg]]) \<and>
   (manage_guild (guild_permissions m) \<or> moderate_members (guild_permissions m) \<longrightarrow>
      fst (require_moderator cfg (Member m)) = [Permission_flags]) \<and>
   (manage_guild (guild_permissions m) \<longrightarrow>
      fst (require_course_staff cfg (Member m)) = [Permission_flags])"
proof (intro conjI impI)
  assume "administrator (guild_permissions m)"
  then show "require_moderator cfg (Member m) = ([Permission_flags], Inr True)"
    and "require_course_staff cfg (Member m) = ([Permission_flags], Inr True)"
    by (simp_all add: require_moderator_flags require_course_staff_flags)
next
  assume "\<not> administrator (guild_permissions m) \<and> \<not> manage_guild (guild_permissions m) \<and>
    \<not> moderate_members (guild_permissions m) \<and> TEACHER_ROLE_ID cfg \<noteq> 0 \<and>
    TEACHER_ROLE_ID cfg \<in> set (member_roles m) \<and> MODERATOR_ROLE_ID cfg \<notin> set (member_roles m)"
  then show "snd (require_course_staff cfg (Member m)) = Inr True"
    and "snd (require_moderator cfg (Member m)) =
        Inl (CheckFailure ''Dir fehlen die Moderationsrechte.'')"
    by (simp_all add: teacher_only)
next
  show "fst (require_moderator cfg u) = [] \<or> fst (require_moderator cfg u) = [Permission_flags] \<or>
    fst (require_moderator cfg u) =
      [Permission_flags, Role_membership [MODERATOR_ROLE_ID cfg]]"
    by (rule require_moderator_tests)
  show "fst (require_course_staff cfg u) = [] \<or> fst (require_course_staff cfg u) = [Permission_flags] \<or>
    fst (require_course_staff cfg u) =
      [Permission_flags, Role_membership [MODERATOR_ROLE_ID cfg, TEACHER_ROLE_ID cfg]]"
    by (rule require_course_staff_tests)
next
  assume "manage_guild (guild_permissions m) \<or> moderate_members (guild_permissions m)"
  then show "fst (require_moderator cfg (Member m)) = [Permission_flags]"
    by (simp add: require_moderator_flags)
next
  assume "manage_guild (guild_permissions m)"
  then show "fst (require_course_staff cfg (Member m)) = [Permission_flags]"
    by (simp add: require_course_staff_flags)
qed

theorem authorization_checks_witness:
  "administrator (guild_permissions
     (anna\<lparr>member_roles := [],
           guild_permissions := no_permissions\<lparr>administrator := True\<rparr>\<rparr>)) \<and>
   require_moderator example_config
     (Member (anna\<lparr>member_roles := [],
           guild_permissions := no_permissions\<lparr>administrator := True\<rparr>\<rparr>)) =
     ([Permission_flags], Inr True) \<and>
   require_course_staff example_config
     (Member (anna\<lparr>member_roles := [],
           guild_permissions := no_permissions\<lparr>administrator := True\<rparr>\<rparr>)) =
     ([Permission_flags], Inr True) \<and>
   TEACHER_ROLE_ID example_config \<in> set (member_roles carl) \<and>
   MODERATOR_ROLE_ID example_config \<notin> set (member_roles carl) \<and>
   snd (require_course_staff example_config (Member carl)) = Inr True \<and>
   snd (require_moderator example_config (Member carl)) =
     Inl (CheckFailure ''Dir fehlen die Moderationsrechte.'') \<and>
   manage_guild (guild_permissions
     (anna\<lparr>guild_permissions := no_permissions\<lparr>manage_guild := True\<rparr>\<rparr>)) \<and>
   fst (require_moderator example_config
     (Member (anna\<lparr>guild_permissions := no_permissions\<lparr>manage_guild := True\<rparr>\<rparr>))) =
     [Permission_flags] \<and>
   fst (require_course_staff example_config
     (Member (anna\<lparr>guild_permissions := no_permissions\<lparr>manage_guild := True\<rparr>\<rparr>))) =
     [Permission_flags]"
proof -
  let ?admin = "anna\<lparr>member_roles := [],
           guild_permissions := no_permissions\<lparr>administrator := True\<rparr>\<rparr>"
  have a: "administrator (guild_permissions ?admin)" by simp
  from a authorization_checks [of ?admin example_config]
  have b: "require_moderator example_config (Member ?admin) = ([Permission_flags], Inr True) \<and>
      require_course_staff example_config (Member ?admin) = ([Permission_flags], Inr True)"
    by blast
  have c: "\<not> administrator (guild_permissions carl) \<and> \<not> manage_guild (guild_permissions carl) \<and>
    \<not> moderate_members (guild_permissions carl) \<and> TEACHER_ROLE_ID example_config \<noteq> 0 \<and>
    TEACHER_ROLE_ID example_config \<in> set (member_roles carl) \<and>
    MODERATOR_ROLE_ID example_config \<notin> set (member_roles carl)"
    by (simp add: carl_def no_permissions_def example_config_def)
  with authorization_checks [of carl example_config]
  have d: "snd (require_course_staff example_config (Member carl)) = Inr True \<and>
      snd (require_moderator example_config (Member carl)) =
        Inl (CheckFailure ''Dir fehlen die Moderationsrechte.'')"
    by blast
  let ?manager = "anna\<lparr>guild_permissions := no_permissions\<lparr>manage_guild := True\<rparr>\<rparr>"
  have e: "manage_guild (guild_permissions ?manager)" by simp
  from e authorization_checks [of ?manager example_config]
  have f: "fst (require_moderator example_config (Member ?manager)) = [Permission_flags] \<and>
      fst (require_course_staff example_config (Member ?manager)) = [Permission_flags]"
    by blast
  from a b c d e f show ?thesis by blast
qed

section \<open>Embed colours\<close>

lemma length_doubled: "length (concat (map (\<lambda>c. [c, c]) s)) = 2 * length s"
  by (induction s) simp_all

lemma parse_embed_color_present:
  assumes "r \<noteq> []"
  shows "parse_embed_color (Some r) =
    (case expand_hex (strip_hash (py_lower (py_strip r))) of
       None \<Rightarrow> Inl (ValueError ''Hexfarbe muss 3 oder 6 Zeichen lang sein.'')
     | Some h \<Rightarrow> if hex6 h then Inr (py_int16 h)
                 else Inl (ValueError ''Hexfarbe enthaelt ungueltige Zeichen.''))"
proof -
  have sh: "(case s of [] \<Rightarrow> s | c # t \<Rightarrow> if c = CHR ''#'' then t else s) = strip_hash s" for s
    by (cases s) (simp_all add: strip_hash_def)
  from assms show ?thesis
    by (simp add: parse_embed_color_def Let_def sh expand_hex_def hex6_def length_doubled)
qed

lemma parse_embed_color_ok:
  assumes "color_digits r = Some h"
  shows "parse_embed_color (Some r) = Inr (py_int16 h)"
proof -
  have "r \<noteq> []"
  proof
    assume "r = []"
    then have "color_digits r = None"
      by (simp add: color_digits_def py_strip_def py_lower_def strip_hash_def expand_hex_def)
    with assms show False by simp
  qed
  with assms show ?thesis
    by (auto simp: parse_embed_color_present color_digits_def split: option.splits if_splits)
qed

lemma parse_embed_color_fails:
  assumes "r \<noteq> []" and "color_digits r = None"
  shows "\<exists>msg. parse_embed_color (Some r) = Inl (ValueError msg)"
  using assms
  by (auto simp: parse_embed_color_present color_digits_def split: option.splits if_splits)

lemma parse_embed_color_absent:
  "parse_embed_color None = Inr blurple" "parse_embed_color (Some []) = Inr blurple"
  by (simp_all add: parse_embed_color_def)

lemma parse_embed_color_error_iff:
  "(\<exists>e. parse_embed_color raw = Inl e) \<longleftrightarrow> (\<exists>r. raw = Some r \<and> r \<noteq> [] \<and> color_digits r = None)"
proof (cases raw)
  case None
  then show ?thesis by (simp add: parse_embed_color_absent)
next
  case (Some r)
  show ?thesis
  proof (cases "r = []")
    case True
    with Some show ?thesis by (simp add: parse_embed_color_absent)
  next
    case False
    show ?thesis
    proof (cases "color_digits r")
      case None
      with False Some parse_embed_color_fails [of r] show ?thesis by auto
    next
      case (Some h)
      with \<open>raw = Some r\<close> parse_embed_color_ok [of r h] show ?thesis by auto
    qed
  qed
qed

lemma parse_embed_color_error_kind:
  assumes "parse_embed_color raw = Inl e"
  shows "\<exists>msg. e = ValueError msg"
proof -
  from assms have "\<exists>e. parse_embed_color raw = Inl e" by blast
  then obtain r where "raw = Some r" "r \<noteq> []" "color_digits r = None"
    unfolding parse_embed_color_error_iff by blast
  with parse_embed_color_fails [of r] assms show ?thesis by auto
qed

lemmas color_defs = parse_embed_color_def is_hex_def py_int16_def hex_val_def blurple_def

text \<open>
  C8. \<^verbatim>\<open>_parse_embed_color\<close> gives the default colour when the argument is absent;
  \<^verbatim>\<open>#fff\<close> and \<^verbatim>\<open>ffffff\<close> give the same colour, \<^verbatim>\<open>0xFFFFFF\<close>; \<^verbatim>\<open>#gg0000\<close> raises the
  \<^verbatim>\<open>ValueError\<close>. It raises exactly when the argument is given, is not the empty string,
  and does not denote six hex digits; the exception is always a \<^verbatim>\<open>ValueError\<close>, and
  otherwise the colour is the value of the six digits. The empty string counts as absent
  (\<^verbatim>\<open>if not raw\<close>) and gives the default colour.
\<close>

theorem parse_embed_color_spec:
  "parse_embed_color None = Inr blurple \<and>
   parse_embed_color (Some ''#fff'') = parse_embed_color (Some ''ffffff'') \<and>
   parse_embed_color (Some ''#fff'') = Inr 0xFFFFFF \<and>
   (\<exists>msg. parse_embed_color (Some ''#gg0000'') = Inl (ValueError msg)) \<and>
   ((\<exists>e. parse_embed_color raw = Inl e) \<longleftrightarrow>
      (\<exists>r. raw = Some r \<and> r \<noteq> [] \<and> color_digits r = None)) \<and>
   (parse_embed_color raw = Inl e \<longrightarrow> (\<exists>msg. e = ValueError msg)) \<and>
   (color_digits r = Some h \<longrightarrow> parse_embed_color (Some r) = Inr (py_int16 h)) \<and>
   parse_embed_color (Some []) = Inr blurple"
proof (intro conjI impI)
  show "parse_embed_color None = Inr blurple" by (rule parse_embed_color_absent)
  show "parse_embed_color (Some ''#fff'') = parse_embed_color (Some ''ffffff'')"
    by (simp add: color_defs str_defs)
  show "parse_embed_color (Some ''#fff'') = Inr 0xFFFFFF"
    by (simp add: color_defs str_defs)
  show "\<exists>msg. parse_embed_color (Some ''#gg0000'') = Inl (ValueError msg)"
    by (simp add: color_defs str_defs)
  show "(\<exists>e. parse_embed_color raw = Inl e) \<longleftrightarrow>
      (\<exists>r. raw = Some r \<and> r \<noteq> [] \<and> color_digits r = None)"
    by (rule parse_embed_color_error_iff)
  show "\<exists>msg. e = ValueError msg" if "parse_embed_color raw = Inl e"
    using that by (rule parse_embed_color_error_kind)
  show "parse_embed_color (Some r) = Inr (py_int16 h)" if "color_digits r = Some h"
    using that by (rule parse_embed_color_ok)
  show "parse_embed_color (Some []) = Inr blurple" by (rule parse_embed_color_absent)
qed

theorem parse_embed_color_spec_witness:
  "color_digits '' #F80 '' = Some ''ff8800'' \<and>
   parse_embed_color (Some '' #F80 '') = Inr 0xFF8800 \<and>
   color_digits ''#12345'' = None \<and>
   (\<exists>e. parse_embed_color (Some ''#12345'') = Inl e) \<and>
   parse_embed_color (Some ''#12345'') =
     Inl (ValueError ''Hexfarbe muss 3 oder 6 Zeichen lang sein.'')"
proof -
  have a: "color_digits '' #F80 '' = Some ''ff8800''"
    by (simp add: color_digits_def expand_hex_def strip_hash_def hex6_def is_hex_def str_defs)
  with parse_embed_color_spec [of _ _ "'' #F80 ''" "''ff8800''"]
  have "parse_embed_color (Some '' #F80 '') = Inr (py_int16 ''ff8800'')" by blast
  then have b: "parse_embed_color (Some '' #F80 '') = Inr 0xFF8800"
    by (simp add: py_int16_def hex_val_def)
  have c: "color_digits ''#12345'' = None"
    by (simp add: color_digits_def expand_hex_def strip_hash_def hex6_def is_hex_def str_defs)
  have d: "parse_embed_color (Some ''#12345'') =
     Inl (ValueError ''Hexfarbe muss 3 oder 6 Zeichen lang sein.'')"
    by (simp add: color_defs str_defs)
  from c have "\<exists>r. Some ''#12345'' = Some r \<and> r \<noteq> [] \<and> color_digits r = None" by simp
  with parse_embed_color_spec [of "Some ''#12345''"]
  have e: "\<exists>e. parse_embed_color (Some ''#12345'') = Inl e" by blast
  from a b c e d show ?thesis by (intro conjI)
qed

section \<open>Member identifiers\<close>

subsection \<open>Mentions\<close>











subsection \<open>Tokens\<close>











subsection \<open>Conversion of the numerals\<close>









lemma mentions_decimal: "mentions raw s \<Longrightarrow> decimal s"
  by (simp add: mentions_def)












section \<open>Course names\<close>

text \<open>A word is a non-empty string without whitespace.\<close>

lemma split_ws_word:
  "\<forall>c\<in>set w. \<not> is_space c \<Longrightarrow> split_ws cur (w @ s) = split_ws (cur @ w) s"
  by (induction w arbitrary: cur) simp_all

lemma split_ws_words:
  assumes "\<forall>c\<in>set cur. \<not> is_space c"
  shows "\<forall>w\<in>set (split_ws cur s). w \<noteq> [] \<and> (\<forall>c\<in>set w. \<not> is_space c)"
  using assms
proof (induction cur s rule: split_ws.induct)
  case (1 cur)
  then show ?case by simp
next
  case (2 cur c cs)
  show ?case
  proof (cases "is_space c")
    case True
    have e: "\<forall>x\<in>set ([] :: string). \<not> is_space x" by simp
    have "\<forall>w\<in>set (split_ws [] cs). w \<noteq> [] \<and> (\<forall>c\<in>set w. \<not> is_space c)"
    proof (cases "cur = []")
      case True
      from "2.IH"(1) [OF \<open>is_space c\<close> True e] show ?thesis .
    next
      case False
      from "2.IH"(2) [OF \<open>is_space c\<close> False e] show ?thesis .
    qed
    with True "2.prems" show ?thesis by simp
  next
    case False
    with "2.prems" have "\<forall>x\<in>set (cur @ [c]). \<not> is_space x" by simp
    with False "2.IH"(3) have
      "\<forall>w\<in>set (split_ws (cur @ [c]) cs). w \<noteq> [] \<and> (\<forall>c\<in>set w. \<not> is_space c)" by blast
    with False show ?thesis by simp
  qed
qed

lemma py_split_words:
  "\<forall>w\<in>set (py_split s). w \<noteq> [] \<and> (\<forall>c\<in>set w. \<not> is_space c)"
  unfolding py_split_def by (rule split_ws_words) simp

lemma space_is_space: "is_space (CHR '' '')"
  by (simp add: is_space_def)

lemma split_join_words:
  assumes "\<forall>w\<in>set ws. w \<noteq> [] \<and> (\<forall>c\<in>set w. \<not> is_space c)"
  shows "split_ws [] (py_join '' '' ws) = ws"
  using assms
proof (induction "'' ''" ws rule: py_join.induct)
  case 1
  then show ?case by simp
next
  case (2 x)
  then have "split_ws [] (x @ []) = split_ws ([] @ x) []" by (intro split_ws_word) simp
  with 2 show ?case by simp
next
  case (3 x y ys)
  then have x: "x \<noteq> []" "\<forall>c\<in>set x. \<not> is_space c" by simp_all
  from x(2) have "split_ws [] (x @ '' '' @ py_join '' '' (y # ys)) =
      split_ws ([] @ x) ('' '' @ py_join '' '' (y # ys))"
    by (rule split_ws_word)
  also from x(1) have "\<dots> = x # split_ws [] (py_join '' '' (y # ys))"
    by (simp add: space_is_space)
  also from 3 have "split_ws [] (py_join '' '' (y # ys)) = y # ys" by simp
  finally show ?case by simp
qed

lemma dropWhile_id: "s = [] \<or> \<not> P (hd s) \<Longrightarrow> dropWhile P s = s"
  by (cases s) auto

lemma py_strip_id:
  assumes "s = [] \<or> (\<not> is_space (hd s) \<and> \<not> is_space (last s))"
  shows "py_strip s = s"
proof (cases "s = []")
  case True
  then show ?thesis by (simp add: py_strip_def)
next
  case False
  with assms have h: "\<not> is_space (hd s)" and l: "\<not> is_space (last s)" by simp_all
  from h have "dropWhile is_space s = s" by (simp add: dropWhile_id)
  moreover from False l have "dropWhile is_space (rev s) = rev s"
    by (intro dropWhile_id) (simp add: hd_rev)
  ultimately show ?thesis by (simp add: py_strip_def)
qed

lemma join_words_ends:
  assumes "\<forall>w\<in>set ws. w \<noteq> [] \<and> (\<forall>c\<in>set w. \<not> is_space c)"
  shows "py_join '' '' ws = [] \<or>
         (\<not> is_space (hd (py_join '' '' ws)) \<and> \<not> is_space (last (py_join '' '' ws)))"
  using assms
proof (induction "'' ''" ws rule: py_join.induct)
  case 1
  then show ?case by simp
next
  case (2 x)
  then show ?case by (cases x rule: rev_cases) (auto simp: hd_append)
next
  case (3 x y ys)
  then have x: "x \<noteq> []" "\<forall>c\<in>set x. \<not> is_space c" by simp_all
  from 3 have y: "y \<noteq> []" by simp
  then have ne: "py_join '' '' (y # ys) \<noteq> []" by (cases ys) simp_all
  from 3 have ih: "\<not> is_space (last (py_join '' '' (y # ys)))" using ne by simp
  from x have "\<not> is_space (hd x)" by (cases x) simp_all
  with x ne ih show ?case by (simp add: hd_append)
qed

lemma normalize_idempotent:
  "normalize_course_name (normalize_course_name name) = normalize_course_name name"
proof -
  let ?ws = "py_split (py_strip name)"
  have w: "\<forall>w\<in>set ?ws. w \<noteq> [] \<and> (\<forall>c\<in>set w. \<not> is_space c)" by (rule py_split_words)
  then have "py_strip (py_join '' '' ?ws) = py_join '' '' ?ws"
    by (intro py_strip_id join_words_ends)
  moreover from w have "py_split (py_join '' '' ?ws) = ?ws"
    unfolding py_split_def by (rule split_join_words)
  ultimately show ?thesis by (simp add: normalize_course_name_def)
qed

lemma normalize_example:
  "normalize_course_name ''  Intro   to   Algebra '' = ''Intro to Algebra''"
  by (simp add: normalize_course_name_def str_defs)

section \<open>Course provisioning\<close>

lemma fetch_course_role_normalized:
  "fetch_course_role g (normalize_course_name name) =
     find (\<lambda>r. py_casefold (role_name r) = py_casefold (normalize_course_name name)) (guild_roles g)"
  by (simp add: fetch_course_role_def normalize_idempotent)

lemma fetch_course_role_duplicate:
  assumes "r \<in> set (guild_roles g)"
    and "py_casefold (role_name r) = py_casefold (normalize_course_name name)"
  shows "\<exists>existing. fetch_course_role g (normalize_course_name name) = Some existing"
proof -
  from assms have "find (\<lambda>r. py_casefold (role_name r) = py_casefold (normalize_course_name name))
      (guild_roles g) \<noteq> None"
    by (auto simp: find_None_iff)
  then show ?thesis by (auto simp: fetch_course_role_normalized)
qed

lemma create_kurs_no_guild:
  assumes "interaction_guild i = None"
  shows "create_kurs cfg p i name reason =
    \<lparr>actions = [Send_message ''Dieser Befehl funktioniert nur auf Servern.''],
     world = None, raised = None\<rparr>"
  using assms by (simp add: create_kurs_def)

lemma create_kurs_empty_name:
  assumes "interaction_guild i = Some g" and "normalize_course_name name = []"
  shows "create_kurs cfg p i name reason =
    \<lparr>actions = [Send_message ''Bitte gib einen Kursnamen an.''],
     world = Some g, raised = None\<rparr>"
  using assms by (simp add: create_kurs_def)

lemma create_kurs_duplicate:
  assumes "interaction_guild i = Some g" and "normalize_course_name name \<noteq> []"
    and "r \<in> set (guild_roles g)"
    and "py_casefold (role_name r) = py_casefold (normalize_course_name name)"
  shows "create_kurs cfg p i name reason =
    \<lparr>actions = [Defer, Followup_send ''Es existiert bereits eine Kursrolle mit diesem Namen.''],
     world = Some g, raised = None\<rparr>"
proof -
  from fetch_course_role_duplicate [OF assms(3,4)] obtain existing
    where "fetch_course_role g (normalize_course_name name) = Some existing" by blast
  with assms(1,2) show ?thesis by (simp add: create_kurs_def Let_def)
qed

text \<open>
  C2. When the normalized name is empty, or equals the name of an existing role up to
  case, the handler returns after a reply that rejects the request and has made no
  mutating call: the guild is unchanged. The reply is the guild-only message when the
  command is used outside a guild, the request for a name when the name is empty, and the
  duplicate message otherwise.
\<close>

theorem create_kurs_rejects:
  "(interaction_guild i = None \<longrightarrow>
      create_kurs cfg p i name reason =
        \<lparr>actions = [Send_message ''Dieser Befehl funktioniert nur auf Servern.''],
         world = None, raised = None\<rparr>) \<and>
   (interaction_guild i = Some g \<and> normalize_course_name name = [] \<longrightarrow>
      create_kurs cfg p i name reason =
        \<lparr>actions = [Send_message ''Bitte gib einen Kursnamen an.''],
         world = Some g, raised = None\<rparr>) \<and>
   (interaction_guild i = Some g \<and> normalize_course_name name \<noteq> [] \<and>
    r \<in> set (guild_roles g) \<and>
    py_casefold (role_name r) = py_casefold (normalize_course_name name) \<longrightarrow>
      create_kurs cfg p i name reason =
        \<lparr>actions = [Defer,
           Followup_send ''Es existiert bereits eine Kursrolle mit diesem Namen.''],
         world = Some g, raised = None\<rparr>) \<and>
   (normalize_course_name name = [] \<or>
    (interaction_guild i = Some g \<and> r \<in> set (guild_roles g) \<and>
     py_casefold (role_name r) = py_casefold (normalize_course_name name)) \<longrightarrow>
      raised (create_kurs cfg p i name reason) = None \<and>
      world (create_kurs cfg p i name reason) = interaction_guild i \<and>
      filter is_mutation (actions (create_kurs cfg p i name reason)) = [] \<and>
      actions (create_kurs cfg p i name reason) \<noteq> [] \<and>
      is_reply (last (actions (create_kurs cfg p i name reason))))"
proof (intro conjI)
  show "interaction_guild i = None \<longrightarrow>
      create_kurs cfg p i name reason =
        \<lparr>actions = [Send_message ''Dieser Befehl funktioniert nur auf Servern.''],
         world = None, raised = None\<rparr>"
    by (simp add: create_kurs_no_guild)
  show "interaction_guild i = Some g \<and> normalize_course_name name = [] \<longrightarrow>
      create_kurs cfg p i name reason =
        \<lparr>actions = [Send_message ''Bitte gib einen Kursnamen an.''],
         world = Some g, raised = None\<rparr>"
    by (simp add: create_kurs_empty_name)
  show "interaction_guild i = Some g \<and> normalize_course_name name \<noteq> [] \<and>
    r \<in> set (guild_roles g) \<and>
    py_casefold (role_name r) = py_casefold (normalize_course_name name) \<longrightarrow>
      create_kurs cfg p i name reason =
        \<lparr>actions = [Defer,
           Followup_send ''Es existiert bereits eine Kursrolle mit diesem Namen.''],
         world = Some g, raised = None\<rparr>"
    using create_kurs_duplicate [of i g name r cfg p reason] by blast
  show "normalize_course_name name = [] \<or>
    (interaction_guild i = Some g \<and> r \<in> set (guild_roles g) \<and>
     py_casefold (role_name r) = py_casefold (normalize_course_name name)) \<longrightarrow>
      raised (create_kurs cfg p i name reason) = None \<and>
      world (create_kurs cfg p i name reason) = interaction_guild i \<and>
      filter is_mutation (actions (create_kurs cfg p i name reason)) = [] \<and>
      actions (create_kurs cfg p i name reason) \<noteq> [] \<and>
      is_reply (last (actions (create_kurs cfg p i name reason)))"
  proof
    assume h: "normalize_course_name name = [] \<or>
      (interaction_guild i = Some g \<and> r \<in> set (guild_roles g) \<and>
       py_casefold (role_name r) = py_casefold (normalize_course_name name))"
    let ?run = "create_kurs cfg p i name reason"
    have "?run = \<lparr>actions = [Send_message ''Dieser Befehl funktioniert nur auf Servern.''],
             world = interaction_guild i, raised = None\<rparr> \<or>
          ?run = \<lparr>actions = [Send_message ''Bitte gib einen Kursnamen an.''],
             world = interaction_guild i, raised = None\<rparr> \<or>
          ?run = \<lparr>actions = [Defer,
               Followup_send ''Es existiert bereits eine Kursrolle mit diesem Namen.''],
             world = interaction_guild i, raised = None\<rparr>"
    proof (cases "interaction_guild i")
      case None
      then show ?thesis by (simp add: create_kurs_no_guild)
    next
      case (Some g')
      show ?thesis
      proof (cases "normalize_course_name name = []")
        case True
        with Some show ?thesis by (simp add: create_kurs_empty_name)
      next
        case False
        with h Some have "r \<in> set (guild_roles g')"
          and "py_casefold (role_name r) = py_casefold (normalize_course_name name)" by auto
        with Some False show ?thesis by (simp add: create_kurs_duplicate)
      qed
    qed
    then show "raised ?run = None \<and> world ?run = interaction_guild i \<and>
      filter is_mutation (actions ?run) = [] \<and> actions ?run \<noteq> [] \<and>
      is_reply (last (actions ?run))"
      by (auto simp: is_mutation_def is_reply_def)
  qed
qed

theorem create_kurs_rejects_witness:
  "normalize_course_name ''  mathe   1 '' = ''mathe 1'' \<and>
   create_kurs example_config permissive example_interaction ''  mathe   1 '' None =
     \<lparr>actions = [Defer,
        Followup_send ''Es existiert bereits eine Kursrolle mit diesem Namen.''],
      world = Some example_guild, raised = None\<rparr> \<and>
   normalize_course_name ''   '' = [] \<and>
   create_kurs example_config permissive example_interaction ''   '' None =
     \<lparr>actions = [Send_message ''Bitte gib einen Kursnamen an.''],
      world = Some example_guild, raised = None\<rparr> \<and>
   create_kurs example_config permissive (example_interaction\<lparr>interaction_guild := None\<rparr>)
       ''Mathe 1'' None =
     \<lparr>actions = [Send_message ''Dieser Befehl funktioniert nur auf Servern.''],
      world = None, raised = None\<rparr> \<and>
   filter is_mutation
     (actions (create_kurs example_config permissive example_interaction ''  mathe   1 '' None)) =
     []"
proof -
  let ?r = "\<lparr>role_id = 100, role_name = ''Mathe 1''\<rparr>"
  have g: "interaction_guild example_interaction = Some example_guild"
    by (simp add: example_interaction_def)
  have n: "normalize_course_name ''  mathe   1 '' = ''mathe 1''"
    by (simp add: normalize_course_name_def str_defs)
  have m: "?r \<in> set (guild_roles example_guild)" by (simp add: example_guild_def)
  have c: "py_casefold (role_name ?r) = py_casefold (normalize_course_name ''  mathe   1 '')"
    by (simp add: n str_defs)
  from n have ne: "normalize_course_name ''  mathe   1 '' \<noteq> []" by simp
  from g ne m c
    create_kurs_rejects [of example_interaction example_config permissive "''  mathe   1 ''" None
      example_guild ?r]
  have d: "create_kurs example_config permissive example_interaction ''  mathe   1 '' None =
     \<lparr>actions = [Defer,
        Followup_send ''Es existiert bereits eine Kursrolle mit diesem Namen.''],
      world = Some example_guild, raised = None\<rparr>" by blast
  have e: "normalize_course_name ''   '' = []"
    by (simp add: normalize_course_name_def str_defs)
  from g e
    create_kurs_rejects [of example_interaction example_config permissive "''   ''" None
      example_guild ?r]
  have f: "create_kurs example_config permissive example_interaction ''   '' None =
     \<lparr>actions = [Send_message ''Bitte gib einen Kursnamen an.''],
      world = Some example_guild, raised = None\<rparr>" by blast
  have "interaction_guild (example_interaction\<lparr>interaction_guild := None\<rparr>) = None" by simp
  with create_kurs_rejects [of "example_interaction\<lparr>interaction_guild := None\<rparr>"
      example_config permissive "''Mathe 1''" None]
  have k: "create_kurs example_config permissive
       (example_interaction\<lparr>interaction_guild := None\<rparr>) ''Mathe 1'' None =
     \<lparr>actions = [Send_message ''Dieser Befehl funktioniert nur auf Servern.''],
      world = None, raised = None\<rparr>" by blast
  from g m c
    create_kurs_rejects [of example_interaction example_config permissive "''  mathe   1 ''" None
      example_guild ?r]
  have l: "filter is_mutation
     (actions (create_kurs example_config permissive example_interaction ''  mathe   1 '' None)) =
     []" by blast
  from n d e f k l show ?thesis by (intro conjI)
qed

section \<open>Partial provisioning\<close>

lemma create_kurs_channel_failure:
  assumes "interaction_guild i = Some g"
    and "normalize_course_name name \<noteq> []"
    and "fetch_course_role g (normalize_course_name name) = None"
    and "get_course_category cfg g = Inr category"
    and "create_role_raises p = None"
    and "create_text_channel_raises p = Some e"
  shows "raised (create_kurs cfg p i name reason) = Some e"
    and "filter is_reply (actions (create_kurs cfg p i name reason)) = []"
    and "world (create_kurs cfg p i name reason) =
      Some (g\<lparr>guild_roles := guild_roles g @
                 [\<lparr>role_id = next_id g, role_name = normalize_course_name name\<rparr>],
              next_id := Suc (next_id g)\<rparr>)"
    and "actions (create_kurs cfg p i name reason) =
      [Defer,
       Create_role (normalize_course_name name) True (format_reason i reason),
       Create_text_channel (slugify (normalize_course_name name)) (channel_id category)
         (course_overwrites cfg
            (g\<lparr>guild_roles := guild_roles g @
                 [\<lparr>role_id = next_id g, role_name = normalize_course_name name\<rparr>],
               next_id := Suc (next_id g)\<rparr>)
            \<lparr>role_id = next_id g, role_name = normalize_course_name name\<rparr>)
         (format_reason i reason)]"
  using assms by (simp_all add: create_kurs_def Let_def is_reply_def)

text \<open>
  C1. The source does not do what the claim says. When \<^verbatim>\<open>create_role\<close> succeeds and
  \<^verbatim>\<open>create_text_channel\<close> raises, for instance \<^verbatim>\<open>discord.Forbidden\<close>, the exception leaves
  \<^verbatim>\<open>create_kurs\<close> uncaught: after the deferral the handler sends no reply at all, neither
  one that reports the role without its channel nor a generic one. The role is not rolled
  back: it stays in the guild.
\<close>

theorem create_kurs_partial_provisioning:
  "interaction_guild i = Some g \<and> normalize_course_name name \<noteq> [] \<and>
   fetch_course_role g (normalize_course_name name) = None \<and>
   get_course_category cfg g = Inr category \<and>
   create_role_raises p = None \<and> create_text_channel_raises p = Some e \<longrightarrow>
     raised (create_kurs cfg p i name reason) = Some e \<and>
     filter is_reply (actions (create_kurs cfg p i name reason)) = [] \<and>
     world (create_kurs cfg p i name reason) =
       Some (g\<lparr>guild_roles := guild_roles g @
                  [\<lparr>role_id = next_id g, role_name = normalize_course_name name\<rparr>],
               next_id := Suc (next_id g)\<rparr>)"
proof
  assume a: "interaction_guild i = Some g \<and> normalize_course_name name \<noteq> [] \<and>
   fetch_course_role g (normalize_course_name name) = None \<and>
   get_course_category cfg g = Inr category \<and>
   create_role_raises p = None \<and> create_text_channel_raises p = Some e"
  then have g: "interaction_guild i = Some g" and n: "normalize_course_name name \<noteq> []"
    and f: "fetch_course_role g (normalize_course_name name) = None"
    and c: "get_course_category cfg g = Inr category"
    and r: "create_role_raises p = None" and t: "create_text_channel_raises p = Some e"
    by simp_all
  from create_kurs_channel_failure(1-3) [OF g n f c r t, of reason]
  show "raised (create_kurs cfg p i name reason) = Some e \<and>
     filter is_reply (actions (create_kurs cfg p i name reason)) = [] \<and>
     world (create_kurs cfg p i name reason) =
       Some (g\<lparr>guild_roles := guild_roles g @
                  [\<lparr>role_id = next_id g, role_name = normalize_course_name name\<rparr>],
               next_id := Suc (next_id g)\<rparr>)"
    by (intro conjI)
qed

lemmas handler_defs = create_kurs_def fetch_course_role_def get_course_category_def
  get_channel_def get_role_def course_overwrites_def format_reason_def user_str_def user_id_def
  normalize_course_name_def slugify_def py_replace_char_def slug_char_def py_str.simps Let_def

theorem create_kurs_partial_provisioning_witness:
  "create_kurs example_config no_channel_permission example_interaction ''Physik'' None =
     \<lparr>actions =
        [Defer,
         Create_role ''Physik'' True ''Aktion von carl (9)'',
         Create_text_channel ''physik'' 50
           [(1, \<lparr>view_channel = Some False, manage_messages = None\<rparr>),
            (200, \<lparr>view_channel = Some True, manage_messages = None\<rparr>),
            (10, \<lparr>view_channel = Some True, manage_messages = Some True\<rparr>),
            (11, \<lparr>view_channel = Some True, manage_messages = Some True\<rparr>)]
           ''Aktion von carl (9)''],
      world = Some (example_guild
        \<lparr>guild_roles := guild_roles example_guild @ [\<lparr>role_id = 200, role_name = ''Physik''\<rparr>],
         next_id := 201\<rparr>),
      raised = Some Forbidden\<rparr> \<and>
   filter is_reply
     (actions (create_kurs example_config no_channel_permission example_interaction ''Physik''
        None)) = []"
proof -
  let ?run = "create_kurs example_config no_channel_permission example_interaction ''Physik'' None"
  have g: "interaction_guild example_interaction = Some example_guild"
    by (simp add: example_interaction_def)
  have n: "normalize_course_name ''Physik'' = ''Physik''"
    by (simp add: normalize_course_name_def str_defs)
  have f: "fetch_course_role example_guild (normalize_course_name ''Physik'') = None"
    by (simp add: n fetch_course_role_def example_guild_def normalize_course_name_def str_defs)
  have c: "get_course_category example_config example_guild =
      Inr \<lparr>channel_id = 50, channel_name = ''Kurse'', channel_kind = CategoryChannel,
           channel_category = None, channel_overwrites = []\<rparr>"
    by (simp add: get_course_category_def get_channel_def example_guild_def example_config_def)
  have p: "create_role_raises no_channel_permission = None"
    "create_text_channel_raises no_channel_permission = Some Forbidden"
    by (simp_all add: no_channel_permission_def)
  from g n f c p
    create_kurs_partial_provisioning [of example_interaction example_guild "''Physik''"
      example_config _ no_channel_permission Forbidden None]
  have r: "filter is_reply (actions ?run) = []" by simp
  have e: "?run =
     \<lparr>actions =
        [Defer,
         Create_role ''Physik'' True ''Aktion von carl (9)'',
         Create_text_channel ''physik'' 50
           [(1, \<lparr>view_channel = Some False, manage_messages = None\<rparr>),
            (200, \<lparr>view_channel = Some True, manage_messages = None\<rparr>),
            (10, \<lparr>view_channel = Some True, manage_messages = Some True\<rparr>),
            (11, \<lparr>view_channel = Some True, manage_messages = Some True\<rparr>)]
           ''Aktion von carl (9)''],
      world = Some (example_guild
        \<lparr>guild_roles := guild_roles example_guild @ [\<lparr>role_id = 200, role_name = ''Physik''\<rparr>],
         next_id := 201\<rparr>),
      raised = Some Forbidden\<rparr>"
    by (simp add: handler_defs example_defs str_defs)
  from e r show ?thesis by (intro conjI)
qed

section \<open>Enrollment\<close>

lemma is_mutation_simps:
  "is_mutation (Add_roles a b c)" "is_mutation (Remove_roles a b c)"
  "\<not> is_mutation (Log_warning s)" "\<not> is_mutation Defer"
  "\<not> is_mutation (Send_message s)" "\<not> is_mutation (Followup_send s)"
  by (simp_all add: is_mutation_def)

lemma action_member_simps:
  "action_member (Add_roles a b c) = Some a" "action_member (Remove_roles a b c) = Some a"
  "action_member (Log_warning s) = None" "action_member Defer = None"
  "action_member (Send_message s) = None" "action_member (Followup_send s) = None"
  by (simp_all add: action_member_def)

subsection \<open>The members resolved\<close>

lemma find_member_id: "find (\<lambda>m. member_id m = mid) ms = Some m \<Longrightarrow> member_id m = mid"
  by (auto simp: find_Some_iff)

lemma resolve_ids_Cons:
  "snd (resolve_ids g (mid # ids)) = snd (resolve_ids g ids) \<or>
   (\<exists>m. member_id m = mid \<and> snd (resolve_ids g (mid # ids)) = m # snd (resolve_ids g ids))"
  by (auto simp: get_member_def fetch_member_def split: option.splits prod.splits
      dest: find_member_id)

lemma resolve_ids_member_ids:
  "set (map member_id (snd (resolve_ids g ids))) \<subseteq> set ids"
proof (induction ids)
  case Nil
  then show ?case by simp
next
  case (Cons mid ids)
  from resolve_ids_Cons [of g mid ids] show ?case
  proof
    assume "snd (resolve_ids g (mid # ids)) = snd (resolve_ids g ids)"
    with Cons show ?thesis by auto
  next
    assume "\<exists>m. member_id m = mid \<and>
      snd (resolve_ids g (mid # ids)) = m # snd (resolve_ids g ids)"
    then obtain m where "member_id m = mid"
      and "snd (resolve_ids g (mid # ids)) = m # snd (resolve_ids g ids)" by blast
    with Cons show ?thesis by auto
  qed
qed

lemma resolve_ids_distinct:
  "distinct ids \<Longrightarrow> distinct (map member_id (snd (resolve_ids g ids)))"
proof (induction ids)
  case Nil
  then show ?case by simp
next
  case (Cons mid ids)
  then have d: "distinct (map member_id (snd (resolve_ids g ids)))" and n: "mid \<notin> set ids"
    by simp_all
  from n resolve_ids_member_ids [of g ids]
  have m: "mid \<notin> set (map member_id (snd (resolve_ids g ids)))" by blast
  from resolve_ids_Cons [of g mid ids] show ?case
  proof
    assume "snd (resolve_ids g (mid # ids)) = snd (resolve_ids g ids)"
    with d show ?thesis by simp
  next
    assume "\<exists>m. member_id m = mid \<and>
      snd (resolve_ids g (mid # ids)) = m # snd (resolve_ids g ids)"
    then obtain x where "member_id x = mid"
      and "snd (resolve_ids g (mid # ids)) = x # snd (resolve_ids g ids)" by blast
    with d m show ?thesis by simp
  qed
qed

lemma resolve_members_Inr:
  assumes "resolve_members g members = Inr (ws, resolved)"
  shows "\<exists>ids. extract_member_ids members = Inr ids \<and> distinct ids \<and>
    resolve_ids g ids = (ws, resolved)"
proof -
  from assms obtain ids where e: "extract_member_ids members = Inr ids"
    and r: "resolve_ids g ids = (ws, resolved)"
    by (auto simp: resolve_members_def split: sum.splits)
  from e have "distinct ids" by (auto simp: extract_member_ids_def split: sum.splits)
  with e r show ?thesis by blast
qed

lemma resolve_members_distinct:
  assumes "resolve_members g members = Inr (ws, resolved)"
  shows "distinct (map member_id resolved)"
proof -
  from resolve_members_Inr [OF assms] obtain ids where "distinct ids"
    and "resolve_ids g ids = (ws, resolved)" by blast
  with resolve_ids_distinct [of ids g] show ?thesis by simp
qed

lemma resolve_ids_warnings:
  "filter is_mutation (fst (resolve_ids g ids)) = [] \<and>
   (\<forall>a\<in>set (fst (resolve_ids g ids)). action_member a = None)"
  by (induction ids)
     (auto simp: is_mutation_def action_member_def split: option.splits prod.splits sum.splits)

subsection \<open>The loop of \<^verbatim>\<open>add_member\<close>\<close>

lemma add_loop_calls_from:
  assumes "add_loop p rs kr ms g = (acts, updated, g', e)" and "a \<in> set acts"
    and "action_member a \<noteq> None"
  shows "\<exists>m\<in>set ms. \<not> holds kr m \<and> a = Add_roles (member_id m) (role_id kr) rs"
  using assms
proof (induction ms arbitrary: g acts updated g' e)
  case Nil
  then show ?case by simp
next
  case (Cons m ms)
  show ?case
  proof (cases "holds kr m")
    case True
    with Cons.prems have "add_loop p rs kr ms g = (acts, updated, g', e)"
      by (simp add: holds_def)
    from Cons.IH [OF this Cons.prems(2,3)] show ?thesis by auto
  next
    case False
    note nh = this
    show ?thesis
    proof (cases "add_roles_raises p (member_id m)")
      case None
      obtain acts1 up1 g1 e1 where
        r: "add_loop p rs kr ms
              (update_member_roles g (member_id m) (\<lambda>r. r @ [role_id kr])) = (acts1, up1, g1, e1)"
        by (metis prod_cases4)
      with None nh Cons.prems(1) have "acts = Add_roles (member_id m) (role_id kr) rs # acts1"
        by (simp add: holds_def)
      with Cons.prems(2) have "a = Add_roles (member_id m) (role_id kr) rs \<or> a \<in> set acts1" by auto
      then show ?thesis
      proof
        assume "a = Add_roles (member_id m) (role_id kr) rs"
        with nh show ?thesis by auto
      next
        assume "a \<in> set acts1"
        from Cons.IH [OF r this Cons.prems(3)] show ?thesis by auto
      qed
    next
      case (Some x)
      show ?thesis
      proof (cases "x = Forbidden")
        case True
        obtain acts1 up1 g1 e1 where r: "add_loop p rs kr ms g = (acts1, up1, g1, e1)"
          by (metis prod_cases4)
        with Some True nh Cons.prems(1) have "acts = Add_roles (member_id m) (role_id kr) rs #
            Log_warning (''Rolle konnte nicht an '' @ member_str m @
                      '' vergeben werden (fehlende Berechtigung)'') # acts1"
          by (simp add: holds_def)
        with Cons.prems(2,3) have "a = Add_roles (member_id m) (role_id kr) rs \<or> a \<in> set acts1"
          by (auto simp: action_member_def)
        then show ?thesis
        proof
          assume "a = Add_roles (member_id m) (role_id kr) rs"
          with nh show ?thesis by auto
        next
          assume "a \<in> set acts1"
          from Cons.IH [OF r this Cons.prems(3)] show ?thesis by auto
        qed
      next
        case False
        with Some nh Cons.prems(1) have "acts = [Add_roles (member_id m) (role_id kr) rs]"
          by (simp add: holds_def)
        with Cons.prems(2) nh show ?thesis by auto
      qed
    qed
  qed
qed

lemma add_loop_skip:
  "holds kr m \<Longrightarrow> add_loop p rs kr (m # ms) g = add_loop p rs kr ms g"
  by (simp add: holds_def)

lemma add_loop_ok:
  assumes "\<not> holds kr m" and "add_roles_raises p (member_id m) = None"
    and "add_loop p rs kr ms (update_member_roles g (member_id m) (\<lambda>r. r @ [role_id kr])) =
           (acts, updated, g', e)"
  shows "add_loop p rs kr (m # ms) g =
    (Add_roles (member_id m) (role_id kr) rs # acts, display_name m # updated, g', e)"
  using assms by (simp add: holds_def)

lemma add_loop_forbidden:
  assumes "\<not> holds kr m" and "add_roles_raises p (member_id m) = Some Forbidden"
    and "add_loop p rs kr ms g = (acts, updated, g', e)"
  shows "add_loop p rs kr (m # ms) g =
    (Add_roles (member_id m) (role_id kr) rs #
     Log_warning (''Rolle konnte nicht an '' @ member_str m @
       '' vergeben werden (fehlende Berechtigung)'') # acts, updated, g', e)"
  using assms by (simp add: holds_def)

lemma add_loop_abort:
  assumes "\<not> holds kr m" and "add_roles_raises p (member_id m) = Some x" and "x \<noteq> Forbidden"
  shows "add_loop p rs kr (m # ms) g = ([Add_roles (member_id m) (role_id kr) rs], [], g, Some x)"
  using assms by (simp add: holds_def)

lemma add_loop_Nil: "add_loop p rs kr [] g = ([], [], g, None)"
  by simp

declare add_loop.simps [simp del]

lemma add_loop_exact:
  assumes "\<forall>m\<in>set ms. add_roles_raises p (member_id m) = None \<or>
                      add_roles_raises p (member_id m) = Some Forbidden"
  shows "\<exists>acts. add_loop p rs kr ms g =
           (acts, map display_name (added p kr ms), grant_all kr (added p kr ms) g, None) \<and>
         filter is_mutation acts =
           map (\<lambda>m. Add_roles (member_id m) (role_id kr) rs) (to_add kr ms)"
  using assms
proof (induction ms arbitrary: g)
  case Nil
  then show ?case by (simp add: add_loop_Nil added_def to_add_def grant_all_def)
next
  case (Cons m ms)
  then have rest: "\<forall>m\<in>set ms. add_roles_raises p (member_id m) = None \<or>
                      add_roles_raises p (member_id m) = Some Forbidden" by simp
  show ?case
  proof (cases "holds kr m")
    case True
    from Cons.IH [OF rest, of g] obtain acts where
      "add_loop p rs kr ms g =
           (acts, map display_name (added p kr ms), grant_all kr (added p kr ms) g, None)"
      and "filter is_mutation acts =
           map (\<lambda>m. Add_roles (member_id m) (role_id kr) rs) (to_add kr ms)" by blast
    with True show ?thesis by (simp add: add_loop_skip added_def to_add_def)
  next
    case False
    from Cons.prems have "add_roles_raises p (member_id m) = None \<or>
        add_roles_raises p (member_id m) = Some Forbidden" by simp
    then show ?thesis
    proof
      assume ok: "add_roles_raises p (member_id m) = None"
      let ?g1 = "update_member_roles g (member_id m) (\<lambda>r. r @ [role_id kr])"
      from Cons.IH [OF rest, of ?g1] obtain acts where
        l: "add_loop p rs kr ms ?g1 =
           (acts, map display_name (added p kr ms), grant_all kr (added p kr ms) ?g1, None)"
        and c: "filter is_mutation acts =
           map (\<lambda>m. Add_roles (member_id m) (role_id kr) rs) (to_add kr ms)" by blast
      from add_loop_ok [OF False ok l]
      have "add_loop p rs kr (m # ms) g =
        (Add_roles (member_id m) (role_id kr) rs # acts,
         display_name m # map display_name (added p kr ms),
         grant_all kr (added p kr ms) ?g1, None)" .
      moreover from False ok have "added p kr (m # ms) = m # added p kr ms"
        by (simp add: added_def)
      moreover from False have "to_add kr (m # ms) = m # to_add kr ms"
        by (simp add: to_add_def)
      moreover have "grant_all kr (m # added p kr ms) g = grant_all kr (added p kr ms) ?g1"
        by (simp add: grant_all_def)
      ultimately show ?thesis using c by (simp add: is_mutation_simps)
    next
      assume no: "add_roles_raises p (member_id m) = Some Forbidden"
      from Cons.IH [OF rest, of g] obtain acts where
        l: "add_loop p rs kr ms g =
           (acts, map display_name (added p kr ms), grant_all kr (added p kr ms) g, None)"
        and c: "filter is_mutation acts =
           map (\<lambda>m. Add_roles (member_id m) (role_id kr) rs) (to_add kr ms)" by blast
      from add_loop_forbidden [OF False no l]
      have "add_loop p rs kr (m # ms) g =
        (Add_roles (member_id m) (role_id kr) rs #
         Log_warning (''Rolle konnte nicht an '' @ member_str m @
           '' vergeben werden (fehlende Berechtigung)'') # acts,
         map display_name (added p kr ms), grant_all kr (added p kr ms) g, None)" .
      moreover from no have "added p kr (m # ms) = added p kr ms"
        by (simp add: added_def)
      moreover from False have "to_add kr (m # ms) = m # to_add kr ms"
        by (simp add: to_add_def)
      ultimately show ?thesis using c by (simp add: is_mutation_simps)
    qed
  qed
qed

subsection \<open>\<^verbatim>\<open>add_member\<close>\<close>

lemma add_member_run:
  assumes "interaction_guild i = Some g" and "fetch_course_role g kurs_name = Some kr"
    and "resolve_members g members = Inr (ws, resolved)" and "resolved \<noteq> []"
    and "add_loop p (format_reason i reason) kr resolved g = (acts, updated, g', e)"
  shows "add_member p i kurs_name members reason =
    (case e of
       Some x \<Rightarrow> \<lparr>actions = ws @ [Defer] @ acts, world = Some g', raised = Some x\<rparr>
     | None \<Rightarrow>
         \<lparr>actions = ws @ [Defer] @ acts @
            [Followup_send
               (if updated \<noteq> [] then
                  py_str (length updated) @ '' Mitglied(er) hinzugefuegt: '' @
                  py_join '', '' updated
                else ''Niemand wurde hinzugefuegt (hatten evtl. schon die Rolle).'')],
          world = Some g', raised = None\<rparr>)"
  using assms by (cases e) (simp_all add: add_member_def)

lemma resolve_members_warnings:
  assumes "resolve_members g members = Inr (ws, resolved)" and "a \<in> set ws"
  shows "action_member a = None"
proof -
  from resolve_members_Inr [OF assms(1)] obtain ids where "resolve_ids g ids = (ws, resolved)"
    by blast
  then have "ws = fst (resolve_ids g ids)" by simp
  with assms(2) resolve_ids_warnings [of g ids] show ?thesis by blast
qed

lemma resolve_members_no_mutation:
  assumes "resolve_members g members = Inr (ws, resolved)"
  shows "filter is_mutation ws = []"
proof -
  from resolve_members_Inr [OF assms] obtain ids where "resolve_ids g ids = (ws, resolved)"
    by blast
  then have "ws = fst (resolve_ids g ids)" by simp
  with resolve_ids_warnings [of g ids] show ?thesis by blast
qed

lemma add_member_target_untouched:
  assumes g: "interaction_guild i = Some g" and f: "fetch_course_role g kurs_name = Some kr"
    and r: "resolve_members g members = Inr (ws, resolved)"
    and m: "m \<in> set resolved" and h: "holds kr m"
    and a: "a \<in> set (actions (add_member p i kurs_name members reason))"
  shows "action_member a \<noteq> Some (member_id m)"
proof
  assume t: "action_member a = Some (member_id m)"
  from m have ne: "resolved \<noteq> []" by auto
  obtain acts updated g' e where
    l: "add_loop p (format_reason i reason) kr resolved g = (acts, updated, g', e)"
    by (metis prod_cases4)
  from add_member_run [OF g f r ne l] a
  have "a \<in> set ws \<or> a = Defer \<or> a \<in> set acts \<or> (\<exists>s. a = Followup_send s)"
    by (cases e) auto
  with t resolve_members_warnings [OF r] have "a \<in> set acts"
    by (auto simp: action_member_simps)
  from add_loop_calls_from [OF l this] t obtain m' where
    m': "m' \<in> set resolved" and nh: "\<not> holds kr m'"
    and "a = Add_roles (member_id m') (role_id kr) (format_reason i reason)" by auto
  with t have "member_id m' = member_id m" by (simp add: action_member_simps)
  moreover from resolve_members_distinct [OF r] have "inj_on member_id (set resolved)"
    by (simp add: distinct_map)
  ultimately have "m' = m" using m m' by (auto dest: inj_onD)
  with nh h show False by simp
qed

lemma add_member_exact:
  assumes g: "interaction_guild i = Some g" and f: "fetch_course_role g kurs_name = Some kr"
    and r: "resolve_members g members = Inr (ws, resolved)" and ne: "resolved \<noteq> []"
    and ok: "\<forall>m\<in>set resolved. add_roles_raises p (member_id m) = None \<or>
                             add_roles_raises p (member_id m) = Some Forbidden"
  shows "filter is_mutation (actions (add_member p i kurs_name members reason)) =
      map (\<lambda>m. Add_roles (member_id m) (role_id kr) (format_reason i reason)) (to_add kr resolved)"
    and "raised (add_member p i kurs_name members reason) = None"
    and "world (add_member p i kurs_name members reason) =
      Some (grant_all kr (added p kr resolved) g)"
    and "last (actions (add_member p i kurs_name members reason)) =
      Followup_send
        (if added p kr resolved \<noteq> [] then
           py_str (length (added p kr resolved)) @ '' Mitglied(er) hinzugefuegt: '' @
           py_join '', '' (map display_name (added p kr resolved))
         else ''Niemand wurde hinzugefuegt (hatten evtl. schon die Rolle).'')"
proof -
  from add_loop_exact [OF ok, of "format_reason i reason" kr g] obtain acts where
    l: "add_loop p (format_reason i reason) kr resolved g =
      (acts, map display_name (added p kr resolved), grant_all kr (added p kr resolved) g, None)"
    and c: "filter is_mutation acts =
      map (\<lambda>m. Add_roles (member_id m) (role_id kr) (format_reason i reason)) (to_add kr resolved)"
    by blast
  note run = add_member_run [OF g f r ne l]
  from run c resolve_members_no_mutation [OF r]
  show "filter is_mutation (actions (add_member p i kurs_name members reason)) =
      map (\<lambda>m. Add_roles (member_id m) (role_id kr) (format_reason i reason)) (to_add kr resolved)"
    by (simp add: is_mutation_simps)
  from run show "raised (add_member p i kurs_name members reason) = None" by simp
  from run show "world (add_member p i kurs_name members reason) =
      Some (grant_all kr (added p kr resolved) g)" by simp
  from run show "last (actions (add_member p i kurs_name members reason)) =
      Followup_send
        (if added p kr resolved \<noteq> [] then
           py_str (length (added p kr resolved)) @ '' Mitglied(er) hinzugefuegt: '' @
           py_join '', '' (map display_name (added p kr resolved))
         else ''Niemand wurde hinzugefuegt (hatten evtl. schon die Rolle).'')"
    by simp
qed

subsection \<open>The loop of \<^verbatim>\<open>remove_member\<close>\<close>

lemma remove_loop_calls_from:
  assumes "remove_loop p rs kr ms g = (acts, updated, g', e)" and "a \<in> set acts"
    and "action_member a \<noteq> None"
  shows "\<exists>m\<in>set ms. holds kr m \<and> a = Remove_roles (member_id m) (role_id kr) rs"
  using assms
proof (induction ms arbitrary: g acts updated g' e)
  case Nil
  then show ?case by simp
next
  case (Cons m ms)
  show ?case
  proof (cases "\<not> holds kr m")
    case True
    with Cons.prems have "remove_loop p rs kr ms g = (acts, updated, g', e)"
      by (simp add: holds_def)
    from Cons.IH [OF this Cons.prems(2,3)] show ?thesis by auto
  next
    case False
    note nh = this
    show ?thesis
    proof (cases "remove_roles_raises p (member_id m)")
      case None
      obtain acts1 up1 g1 e1 where
        r: "remove_loop p rs kr ms
              (update_member_roles g (member_id m) (filter (\<lambda>r. r \<noteq> role_id kr))) = (acts1, up1, g1, e1)"
        by (metis prod_cases4)
      with None nh Cons.prems(1) have "acts = Remove_roles (member_id m) (role_id kr) rs # acts1"
        by (simp add: holds_def)
      with Cons.prems(2) have "a = Remove_roles (member_id m) (role_id kr) rs \<or> a \<in> set acts1" by auto
      then show ?thesis
      proof
        assume "a = Remove_roles (member_id m) (role_id kr) rs"
        with nh show ?thesis by auto
      next
        assume "a \<in> set acts1"
        from Cons.IH [OF r this Cons.prems(3)] show ?thesis by auto
      qed
    next
      case (Some x)
      show ?thesis
      proof (cases "x = Forbidden")
        case True
        obtain acts1 up1 g1 e1 where r: "remove_loop p rs kr ms g = (acts1, up1, g1, e1)"
          by (metis prod_cases4)
        with Some True nh Cons.prems(1) have "acts = Remove_roles (member_id m) (role_id kr) rs #
            Log_warning (''Rolle konnte nicht von '' @ member_str m @
                      '' entfernt werden (fehlende Berechtigung)'') # acts1"
          by (simp add: holds_def)
        with Cons.prems(2,3) have "a = Remove_roles (member_id m) (role_id kr) rs \<or> a \<in> set acts1"
          by (auto simp: action_member_def)
        then show ?thesis
        proof
          assume "a = Remove_roles (member_id m) (role_id kr) rs"
          with nh show ?thesis by auto
        next
          assume "a \<in> set acts1"
          from Cons.IH [OF r this Cons.prems(3)] show ?thesis by auto
        qed
      next
        case False
        with Some nh Cons.prems(1) have "acts = [Remove_roles (member_id m) (role_id kr) rs]"
          by (simp add: holds_def)
        with Cons.prems(2) nh show ?thesis by auto
      qed
    qed
  qed
qed

lemma remove_loop_skip:
  "\<not> holds kr m \<Longrightarrow> remove_loop p rs kr (m # ms) g = remove_loop p rs kr ms g"
  by (simp add: holds_def)

lemma remove_loop_ok:
  assumes "holds kr m" and "remove_roles_raises p (member_id m) = None"
    and "remove_loop p rs kr ms (update_member_roles g (member_id m) (filter (\<lambda>r. r \<noteq> role_id kr))) =
           (acts, updated, g', e)"
  shows "remove_loop p rs kr (m # ms) g =
    (Remove_roles (member_id m) (role_id kr) rs # acts, display_name m # updated, g', e)"
  using assms by (simp add: holds_def)

lemma remove_loop_forbidden:
  assumes "holds kr m" and "remove_roles_raises p (member_id m) = Some Forbidden"
    and "remove_loop p rs kr ms g = (acts, updated, g', e)"
  shows "remove_loop p rs kr (m # ms) g =
    (Remove_roles (member_id m) (role_id kr) rs #
     Log_warning (''Rolle konnte nicht von '' @ member_str m @
       '' entfernt werden (fehlende Berechtigung)'') # acts, updated, g', e)"
  using assms by (simp add: holds_def)

lemma remove_loop_abort:
  assumes "holds kr m" and "remove_roles_raises p (member_id m) = Some x" and "x \<noteq> Forbidden"
  shows "remove_loop p rs kr (m # ms) g = ([Remove_roles (member_id m) (role_id kr) rs], [], g, Some x)"
  using assms by (simp add: holds_def)

lemma remove_loop_Nil: "remove_loop p rs kr [] g = ([], [], g, None)"
  by simp

declare remove_loop.simps [simp del]

lemma remove_loop_exact:
  assumes "\<forall>m\<in>set ms. remove_roles_raises p (member_id m) = None \<or>
                      remove_roles_raises p (member_id m) = Some Forbidden"
  shows "\<exists>acts. remove_loop p rs kr ms g =
           (acts, map display_name (removed p kr ms), revoke_all kr (removed p kr ms) g, None) \<and>
         filter is_mutation acts =
           map (\<lambda>m. Remove_roles (member_id m) (role_id kr) rs) (to_remove kr ms)"
  using assms
proof (induction ms arbitrary: g)
  case Nil
  then show ?case by (simp add: remove_loop_Nil removed_def to_remove_def revoke_all_def)
next
  case (Cons m ms)
  then have rest: "\<forall>m\<in>set ms. remove_roles_raises p (member_id m) = None \<or>
                      remove_roles_raises p (member_id m) = Some Forbidden" by simp
  show ?case
  proof (cases "\<not> holds kr m")
    case True
    from Cons.IH [OF rest, of g] obtain acts where
      "remove_loop p rs kr ms g =
           (acts, map display_name (removed p kr ms), revoke_all kr (removed p kr ms) g, None)"
      and "filter is_mutation acts =
           map (\<lambda>m. Remove_roles (member_id m) (role_id kr) rs) (to_remove kr ms)" by blast
    with True show ?thesis by (simp add: remove_loop_skip removed_def to_remove_def)
  next
    case False
    then have hk: "holds kr m" by simp
    from Cons.prems have "remove_roles_raises p (member_id m) = None \<or>
        remove_roles_raises p (member_id m) = Some Forbidden" by simp
    then show ?thesis
    proof
      assume ok: "remove_roles_raises p (member_id m) = None"
      let ?g1 = "update_member_roles g (member_id m) (filter (\<lambda>r. r \<noteq> role_id kr))"
      from Cons.IH [OF rest, of ?g1] obtain acts where
        l: "remove_loop p rs kr ms ?g1 =
           (acts, map display_name (removed p kr ms), revoke_all kr (removed p kr ms) ?g1, None)"
        and c: "filter is_mutation acts =
           map (\<lambda>m. Remove_roles (member_id m) (role_id kr) rs) (to_remove kr ms)" by blast
      from remove_loop_ok [OF hk ok l]
      have "remove_loop p rs kr (m # ms) g =
        (Remove_roles (member_id m) (role_id kr) rs # acts,
         display_name m # map display_name (removed p kr ms),
         revoke_all kr (removed p kr ms) ?g1, None)" .
      moreover from hk ok have "removed p kr (m # ms) = m # removed p kr ms"
        by (simp add: removed_def)
      moreover from hk have "to_remove kr (m # ms) = m # to_remove kr ms"
        by (simp add: to_remove_def)
      moreover have "revoke_all kr (m # removed p kr ms) g = revoke_all kr (removed p kr ms) ?g1"
        by (simp add: revoke_all_def)
      ultimately show ?thesis using c by (simp add: is_mutation_simps)
    next
      assume no: "remove_roles_raises p (member_id m) = Some Forbidden"
      from Cons.IH [OF rest, of g] obtain acts where
        l: "remove_loop p rs kr ms g =
           (acts, map display_name (removed p kr ms), revoke_all kr (removed p kr ms) g, None)"
        and c: "filter is_mutation acts =
           map (\<lambda>m. Remove_roles (member_id m) (role_id kr) rs) (to_remove kr ms)" by blast
      from remove_loop_forbidden [OF hk no l]
      have "remove_loop p rs kr (m # ms) g =
        (Remove_roles (member_id m) (role_id kr) rs #
         Log_warning (''Rolle konnte nicht von '' @ member_str m @
           '' entfernt werden (fehlende Berechtigung)'') # acts,
         map display_name (removed p kr ms), revoke_all kr (removed p kr ms) g, None)" .
      moreover from no have "removed p kr (m # ms) = removed p kr ms"
        by (simp add: removed_def)
      moreover from hk have "to_remove kr (m # ms) = m # to_remove kr ms"
        by (simp add: to_remove_def)
      ultimately show ?thesis using c by (simp add: is_mutation_simps)
    qed
  qed
qed

subsection \<open>\<^verbatim>\<open>remove_member\<close>\<close>

lemma remove_member_run:
  assumes "interaction_guild i = Some g" and "fetch_course_role g kurs_name = Some kr"
    and "resolve_members g members = Inr (ws, resolved)" and "resolved \<noteq> []"
    and "remove_loop p (format_reason i reason) kr resolved g = (acts, updated, g', e)"
  shows "remove_member p i kurs_name members reason =
    (case e of
       Some x \<Rightarrow> \<lparr>actions = ws @ [Defer] @ acts, world = Some g', raised = Some x\<rparr>
     | None \<Rightarrow>
         \<lparr>actions = ws @ [Defer] @ acts @
            [Followup_send
               (if updated \<noteq> [] then
                  py_str (length updated) @ '' Mitglied(er) entfernt: '' @
                  py_join '', '' updated
                else ''Niemand wurde entfernt (hatte evtl. die Rolle nicht).'')],
          world = Some g', raised = None\<rparr>)"
  using assms by (cases e) (simp_all add: remove_member_def)

lemma remove_member_target_untouched:
  assumes g: "interaction_guild i = Some g" and f: "fetch_course_role g kurs_name = Some kr"
    and r: "resolve_members g members = Inr (ws, resolved)"
    and m: "m \<in> set resolved" and h: "\<not> holds kr m"
    and a: "a \<in> set (actions (remove_member p i kurs_name members reason))"
  shows "action_member a \<noteq> Some (member_id m)"
proof
  assume t: "action_member a = Some (member_id m)"
  from m have ne: "resolved \<noteq> []" by auto
  obtain acts updated g' e where
    l: "remove_loop p (format_reason i reason) kr resolved g = (acts, updated, g', e)"
    by (metis prod_cases4)
  from remove_member_run [OF g f r ne l] a
  have "a \<in> set ws \<or> a = Defer \<or> a \<in> set acts \<or> (\<exists>s. a = Followup_send s)"
    by (cases e) auto
  with t resolve_members_warnings [OF r] have "a \<in> set acts"
    by (auto simp: action_member_simps)
  from remove_loop_calls_from [OF l this] t obtain m' where
    m': "m' \<in> set resolved" and nh: "holds kr m'"
    and "a = Remove_roles (member_id m') (role_id kr) (format_reason i reason)" by auto
  with t have "member_id m' = member_id m" by (simp add: action_member_simps)
  moreover from resolve_members_distinct [OF r] have "inj_on member_id (set resolved)"
    by (simp add: distinct_map)
  ultimately have "m' = m" using m m' by (auto dest: inj_onD)
  with nh h show False by simp
qed

lemma remove_member_exact:
  assumes g: "interaction_guild i = Some g" and f: "fetch_course_role g kurs_name = Some kr"
    and r: "resolve_members g members = Inr (ws, resolved)" and ne: "resolved \<noteq> []"
    and ok: "\<forall>m\<in>set resolved. remove_roles_raises p (member_id m) = None \<or>
                             remove_roles_raises p (member_id m) = Some Forbidden"
  shows "filter is_mutation (actions (remove_member p i kurs_name members reason)) =
      map (\<lambda>m. Remove_roles (member_id m) (role_id kr) (format_reason i reason)) (to_remove kr resolved)"
    and "raised (remove_member p i kurs_name members reason) = None"
    and "world (remove_member p i kurs_name members reason) =
      Some (revoke_all kr (removed p kr resolved) g)"
    and "last (actions (remove_member p i kurs_name members reason)) =
      Followup_send
        (if removed p kr resolved \<noteq> [] then
           py_str (length (removed p kr resolved)) @ '' Mitglied(er) entfernt: '' @
           py_join '', '' (map display_name (removed p kr resolved))
         else ''Niemand wurde entfernt (hatte evtl. die Rolle nicht).'')"
proof -
  from remove_loop_exact [OF ok, of "format_reason i reason" kr g] obtain acts where
    l: "remove_loop p (format_reason i reason) kr resolved g =
      (acts, map display_name (removed p kr resolved), revoke_all kr (removed p kr resolved) g, None)"
    and c: "filter is_mutation acts =
      map (\<lambda>m. Remove_roles (member_id m) (role_id kr) (format_reason i reason)) (to_remove kr resolved)"
    by blast
  note run = remove_member_run [OF g f r ne l]
  from run c resolve_members_no_mutation [OF r]
  show "filter is_mutation (actions (remove_member p i kurs_name members reason)) =
      map (\<lambda>m. Remove_roles (member_id m) (role_id kr) (format_reason i reason)) (to_remove kr resolved)"
    by (simp add: is_mutation_simps)
  from run show "raised (remove_member p i kurs_name members reason) = None" by simp
  from run show "world (remove_member p i kurs_name members reason) =
      Some (revoke_all kr (removed p kr resolved) g)" by simp
  from run show "last (actions (remove_member p i kurs_name members reason)) =
      Followup_send
        (if removed p kr resolved \<noteq> [] then
           py_str (length (removed p kr resolved)) @ '' Mitglied(er) entfernt: '' @
           py_join '', '' (map display_name (removed p kr resolved))
         else ''Niemand wurde entfernt (hatte evtl. die Rolle nicht).'')"
    by simp
qed


subsection \<open>Running the command again\<close>

lemma with_roles_id [simp]: "member_id (with_roles mid f m) = member_id m"
  by (simp add: with_roles_def)

lemma find_with_roles:
  "find (\<lambda>m. member_id m = k) (map (with_roles mid f) xs) =
   map_option (with_roles mid f) (find (\<lambda>m. member_id m = k) xs)"
  by (induction xs) simp_all

lemma resolve_ids_update:
  "resolve_ids (update_member_roles g mid f) ids =
   (fst (resolve_ids g ids), map (with_roles mid f) (snd (resolve_ids g ids)))"
proof (induction ids)
  case Nil
  then show ?case by simp
next
  case (Cons k ids)
  have c: "get_member (update_member_roles g mid f) k = map_option (with_roles mid f) (get_member g k)"
    by (simp add: get_member_def update_member_roles_def find_with_roles)
  have r: "fetch_member (update_member_roles g mid f) k =
      (case fetch_member g k of Inl e \<Rightarrow> Inl e | Inr m \<Rightarrow> Inr (with_roles mid f m))"
    by (simp add: fetch_member_def update_member_roles_def find_with_roles split: option.splits)
  from Cons show ?case
    by (simp add: c r split: option.splits sum.splits prod.splits)
qed

lemma guild_roles_update [simp]:
  "guild_roles (update_member_roles g mid f) = guild_roles g"
  by (simp add: update_member_roles_def)

lemma fetch_course_role_update [simp]:
  "fetch_course_role (update_member_roles g mid f) name = fetch_course_role g name"
  by (simp add: fetch_course_role_def)

lemma fetch_course_role_grant_all [simp]:
  "fetch_course_role (grant_all kr cs g) name = fetch_course_role g name"
  by (induction cs arbitrary: g) (simp_all add: grant_all_def)

lemma fetch_course_role_revoke_all [simp]:
  "fetch_course_role (revoke_all kr cs g) name = fetch_course_role g name"
  by (induction cs arbitrary: g) (simp_all add: revoke_all_def)

lemma resolve_ids_grant_all:
  "resolve_ids (grant_all kr cs g) ids =
   (fst (resolve_ids g ids),
    map (\<lambda>m. foldl (\<lambda>m c. with_roles (member_id c) (\<lambda>r. r @ [role_id kr]) m) m cs)
      (snd (resolve_ids g ids)))"
proof (induction cs arbitrary: g)
  case Nil
  then show ?case by (simp add: grant_all_def)
next
  case (Cons c cs)
  have "grant_all kr (c # cs) g =
      grant_all kr cs (update_member_roles g (member_id c) (\<lambda>r. r @ [role_id kr]))"
    by (simp add: grant_all_def)
  with Cons [of "update_member_roles g (member_id c) (\<lambda>r. r @ [role_id kr])"]
  show ?case by (simp add: resolve_ids_update)
qed

lemma resolve_ids_revoke_all:
  "resolve_ids (revoke_all kr cs g) ids =
   (fst (resolve_ids g ids),
    map (\<lambda>m. foldl (\<lambda>m c. with_roles (member_id c) (filter (\<lambda>r. r \<noteq> role_id kr)) m) m cs)
      (snd (resolve_ids g ids)))"
proof (induction cs arbitrary: g)
  case Nil
  then show ?case by (simp add: revoke_all_def)
next
  case (Cons c cs)
  have "revoke_all kr (c # cs) g =
      revoke_all kr cs (update_member_roles g (member_id c) (filter (\<lambda>r. r \<noteq> role_id kr)))"
    by (simp add: revoke_all_def)
  with Cons [of "update_member_roles g (member_id c) (filter (\<lambda>r. r \<noteq> role_id kr))"]
  show ?case by (simp add: resolve_ids_update)
qed

lemma granted_holds:
  assumes "holds kr m \<or> member_id m \<in> member_id ` set cs"
  shows "holds kr (foldl (\<lambda>m c. with_roles (member_id c) (\<lambda>r. r @ [role_id kr]) m) m cs)"
  using assms
proof (induction cs arbitrary: m)
  case Nil
  then show ?case by simp
next
  case (Cons c cs)
  let ?m = "with_roles (member_id c) (\<lambda>r. r @ [role_id kr]) m"
  from Cons.prems have "holds kr ?m \<or> member_id ?m \<in> member_id ` set cs"
    by (auto simp: holds_def with_roles_def)
  from Cons.IH [OF this] show ?case by simp
qed

lemma revoked_lacks:
  assumes "\<not> holds kr m \<or> member_id m \<in> member_id ` set cs"
  shows "\<not> holds kr (foldl (\<lambda>m c. with_roles (member_id c) (filter (\<lambda>r. r \<noteq> role_id kr)) m) m cs)"
  using assms
proof (induction cs arbitrary: m)
  case Nil
  then show ?case by simp
next
  case (Cons c cs)
  let ?m = "with_roles (member_id c) (filter (\<lambda>r. r \<noteq> role_id kr)) m"
  from Cons.prems have "\<not> holds kr ?m \<or> member_id ?m \<in> member_id ` set cs"
    by (auto simp: holds_def with_roles_def)
  from Cons.IH [OF this] show ?case by simp
qed

lemma add_loop_all_hold:
  "\<forall>m\<in>set ms. holds kr m \<Longrightarrow> add_loop p rs kr ms g = ([], [], g, None)"
  by (induction ms) (simp_all add: add_loop_Nil add_loop_skip)

lemma remove_loop_none_holds:
  "\<forall>m\<in>set ms. \<not> holds kr m \<Longrightarrow> remove_loop p rs kr ms g = ([], [], g, None)"
  by (induction ms) (simp_all add: remove_loop_Nil remove_loop_skip)

lemma add_member_again:
  assumes g: "interaction_guild i = Some g" and f: "fetch_course_role g kurs_name = Some kr"
    and r: "resolve_members g members = Inr (ws, resolved)" and ne: "resolved \<noteq> []"
    and succeed: "\<forall>m\<in>set resolved. add_roles_raises p (member_id m) = None"
  shows "filter is_mutation
      (actions (add_member p' (i\<lparr>interaction_guild := world (add_member p i kurs_name members reason)\<rparr>)
         kurs_name members reason')) = []"
    and "world (add_member p' (i\<lparr>interaction_guild := world (add_member p i kurs_name members reason)\<rparr>)
         kurs_name members reason') = world (add_member p i kurs_name members reason)"
proof -
  let ?cs = "added p kr resolved"
  let ?g1 = "grant_all kr ?cs g"
  let ?G = "\<lambda>m. foldl (\<lambda>m c. with_roles (member_id c) (\<lambda>r. r @ [role_id kr]) m) m ?cs"
  let ?i2 = "i\<lparr>interaction_guild := Some ?g1\<rparr>"
  from succeed have ok: "\<forall>m\<in>set resolved. add_roles_raises p (member_id m) = None \<or>
      add_roles_raises p (member_id m) = Some Forbidden" by simp
  have w: "world (add_member p i kurs_name members reason) = Some ?g1"
    by (rule add_member_exact(3) [OF g f r ne ok])
  have g2: "interaction_guild ?i2 = Some ?g1" by simp
  from f have f2: "fetch_course_role ?g1 kurs_name = Some kr" by simp
  from r have r2: "resolve_members ?g1 members = Inr (ws, map ?G resolved)"
    by (auto simp: resolve_members_def resolve_ids_grant_all split: sum.splits)
  from ne have ne2: "map ?G resolved \<noteq> []" by simp
  have "\<forall>m\<in>set resolved. holds kr (?G m)"
  proof
    fix m assume m: "m \<in> set resolved"
    show "holds kr (?G m)"
    proof (rule granted_holds)
      from m succeed show "holds kr m \<or> member_id m \<in> member_id ` set ?cs"
        by (auto simp: added_def)
    qed
  qed
  then have "\<forall>m\<in>set (map ?G resolved). holds kr m" by simp
  then have l: "add_loop p' (format_reason ?i2 reason') kr (map ?G resolved) ?g1 = ([], [], ?g1, None)"
    by (rule add_loop_all_hold)
  note run = add_member_run [OF g2 f2 r2 ne2 l]
  from run resolve_members_no_mutation [OF r] w
  show "filter is_mutation
      (actions (add_member p' (i\<lparr>interaction_guild := world (add_member p i kurs_name members reason)\<rparr>)
         kurs_name members reason')) = []"
    by (simp add: is_mutation_simps)
  from run w
  show "world (add_member p' (i\<lparr>interaction_guild := world (add_member p i kurs_name members reason)\<rparr>)
         kurs_name members reason') = world (add_member p i kurs_name members reason)"
    by simp
qed

lemma remove_member_again:
  assumes g: "interaction_guild i = Some g" and f: "fetch_course_role g kurs_name = Some kr"
    and r: "resolve_members g members = Inr (ws, resolved)" and ne: "resolved \<noteq> []"
    and succeed: "\<forall>m\<in>set resolved. remove_roles_raises p (member_id m) = None"
  shows "filter is_mutation
      (actions (remove_member p' (i\<lparr>interaction_guild := world (remove_member p i kurs_name members reason)\<rparr>)
         kurs_name members reason')) = []"
    and "world (remove_member p' (i\<lparr>interaction_guild := world (remove_member p i kurs_name members reason)\<rparr>)
         kurs_name members reason') = world (remove_member p i kurs_name members reason)"
proof -
  let ?cs = "removed p kr resolved"
  let ?g1 = "revoke_all kr ?cs g"
  let ?G = "\<lambda>m. foldl (\<lambda>m c. with_roles (member_id c) (filter (\<lambda>r. r \<noteq> role_id kr)) m) m ?cs"
  let ?i2 = "i\<lparr>interaction_guild := Some ?g1\<rparr>"
  from succeed have ok: "\<forall>m\<in>set resolved. remove_roles_raises p (member_id m) = None \<or>
      remove_roles_raises p (member_id m) = Some Forbidden" by simp
  have w: "world (remove_member p i kurs_name members reason) = Some ?g1"
    by (rule remove_member_exact(3) [OF g f r ne ok])
  have g2: "interaction_guild ?i2 = Some ?g1" by simp
  from f have f2: "fetch_course_role ?g1 kurs_name = Some kr" by simp
  from r have r2: "resolve_members ?g1 members = Inr (ws, map ?G resolved)"
    by (auto simp: resolve_members_def resolve_ids_revoke_all split: sum.splits)
  from ne have ne2: "map ?G resolved \<noteq> []" by simp
  have "\<forall>m\<in>set resolved. \<not> holds kr (?G m)"
  proof
    fix m assume m: "m \<in> set resolved"
    show "\<not> holds kr (?G m)"
    proof (rule revoked_lacks)
      from m succeed show "\<not> holds kr m \<or> member_id m \<in> member_id ` set ?cs"
        by (auto simp: removed_def)
    qed
  qed
  then have "\<forall>m\<in>set (map ?G resolved). \<not> holds kr m" by simp
  then have l: "remove_loop p' (format_reason ?i2 reason') kr (map ?G resolved) ?g1 = ([], [], ?g1, None)"
    by (rule remove_loop_none_holds)
  note run = remove_member_run [OF g2 f2 r2 ne2 l]
  from run resolve_members_no_mutation [OF r] w
  show "filter is_mutation
      (actions (remove_member p' (i\<lparr>interaction_guild := world (remove_member p i kurs_name members reason)\<rparr>)
         kurs_name members reason')) = []"
    by (simp add: is_mutation_simps)
  from run w
  show "world (remove_member p' (i\<lparr>interaction_guild := world (remove_member p i kurs_name members reason)\<rparr>)
         kurs_name members reason') = world (remove_member p i kurs_name members reason)"
    by simp
qed

text \<open>
  C7, as amended. In \<^verbatim>\<open>add_member\<close> and \<^verbatim>\<open>remove_member\<close> no call is made on a resolved
  member who is already in the target state. When every call on a member either succeeds
  or raises \<^verbatim>\<open>discord.Forbidden\<close>, exactly one call is made for each resolved member who
  is not in the target state, in order; the members changed and counted in the report
  are those for whom the call succeeded, and the directory is changed for them only; the
  handler raises nothing. When every call succeeds, running the command again on the
  resulting directory makes no mutating call and leaves the directory as it is.
\<close>

theorem enrollment_per_member:
  "interaction_guild i = Some g \<and> fetch_course_role g kurs_name = Some kr \<and>
   resolve_members g members = Inr (ws, resolved) \<longrightarrow>
     (\<forall>m\<in>set resolved. holds kr m \<longrightarrow>
        (\<forall>a\<in>set (actions (add_member p i kurs_name members reason)).
           action_member a \<noteq> Some (member_id m))) \<and>
     (\<forall>m\<in>set resolved. \<not> holds kr m \<longrightarrow>
        (\<forall>a\<in>set (actions (remove_member p i kurs_name members reason)).
           action_member a \<noteq> Some (member_id m))) \<and>
     (resolved \<noteq> [] \<and>
      (\<forall>m\<in>set resolved. add_roles_raises p (member_id m) = None \<or>
                          add_roles_raises p (member_id m) = Some Forbidden) \<longrightarrow>
        filter is_mutation (actions (add_member p i kurs_name members reason)) =
          map (\<lambda>m. Add_roles (member_id m) (role_id kr) (format_reason i reason))
            (to_add kr resolved) \<and>
        raised (add_member p i kurs_name members reason) = None \<and>
        world (add_member p i kurs_name members reason) =
          Some (grant_all kr (added p kr resolved) g) \<and>
        last (actions (add_member p i kurs_name members reason)) =
          Followup_send
            (if added p kr resolved \<noteq> [] then
               py_str (length (added p kr resolved)) @ '' Mitglied(er) hinzugefuegt: '' @
               py_join '', '' (map display_name (added p kr resolved))
             else ''Niemand wurde hinzugefuegt (hatten evtl. schon die Rolle).'')) \<and>
     (resolved \<noteq> [] \<and>
      (\<forall>m\<in>set resolved. remove_roles_raises p (member_id m) = None \<or>
                          remove_roles_raises p (member_id m) = Some Forbidden) \<longrightarrow>
        filter is_mutation (actions (remove_member p i kurs_name members reason)) =
          map (\<lambda>m. Remove_roles (member_id m) (role_id kr) (format_reason i reason))
            (to_remove kr resolved) \<and>
        raised (remove_member p i kurs_name members reason) = None \<and>
        world (remove_member p i kurs_name members reason) =
          Some (revoke_all kr (removed p kr resolved) g) \<and>
        last (actions (remove_member p i kurs_name members reason)) =
          Followup_send
            (if removed p kr resolved \<noteq> [] then
               py_str (length (removed p kr resolved)) @ '' Mitglied(er) entfernt: '' @
               py_join '', '' (map display_name (removed p kr resolved))
             else ''Niemand wurde entfernt (hatte evtl. die Rolle nicht).'')) \<and>
     (resolved \<noteq> [] \<and> (\<forall>m\<in>set resolved. add_roles_raises p (member_id m) = None) \<longrightarrow>
        filter is_mutation
          (actions (add_member p'
             (i\<lparr>interaction_guild := world (add_member p i kurs_name members reason)\<rparr>)
             kurs_name members reason')) = [] \<and>
        world (add_member p'
             (i\<lparr>interaction_guild := world (add_member p i kurs_name members reason)\<rparr>)
             kurs_name members reason') =
          world (add_member p i kurs_name members reason)) \<and>
     (resolved \<noteq> [] \<and> (\<forall>m\<in>set resolved. remove_roles_raises p (member_id m) = None) \<longrightarrow>
        filter is_mutation
          (actions (remove_member p'
             (i\<lparr>interaction_guild := world (remove_member p i kurs_name members reason)\<rparr>)
             kurs_name members reason')) = [] \<and>
        world (remove_member p'
             (i\<lparr>interaction_guild := world (remove_member p i kurs_name members reason)\<rparr>)
             kurs_name members reason') =
          world (remove_member p i kurs_name members reason))"
proof
  assume "interaction_guild i = Some g \<and> fetch_course_role g kurs_name = Some kr \<and>
   resolve_members g members = Inr (ws, resolved)"
  then have g: "interaction_guild i = Some g" and f: "fetch_course_role g kurs_name = Some kr"
    and r: "resolve_members g members = Inr (ws, resolved)" by simp_all
  show "(\<forall>m\<in>set resolved. holds kr m \<longrightarrow>
        (\<forall>a\<in>set (actions (add_member p i kurs_name members reason)).
           action_member a \<noteq> Some (member_id m))) \<and>
     (\<forall>m\<in>set resolved. \<not> holds kr m \<longrightarrow>
        (\<forall>a\<in>set (actions (remove_member p i kurs_name members reason)).
           action_member a \<noteq> Some (member_id m))) \<and>
     (resolved \<noteq> [] \<and>
      (\<forall>m\<in>set resolved. add_roles_raises p (member_id m) = None \<or>
                          add_roles_raises p (member_id m) = Some Forbidden) \<longrightarrow>
        filter is_mutation (actions (add_member p i kurs_name members reason)) =
          map (\<lambda>m. Add_roles (member_id m) (role_id kr) (format_reason i reason))
            (to_add kr resolved) \<and>
        raised (add_member p i kurs_name members reason) = None \<and>
        world (add_member p i kurs_name members reason) =
          Some (grant_all kr (added p kr resolved) g) \<and>
        last (actions (add_member p i kurs_name members reason)) =
          Followup_send
            (if added p kr resolved \<noteq> [] then
               py_str (length (added p kr resolved)) @ '' Mitglied(er) hinzugefuegt: '' @
               py_join '', '' (map display_name (added p kr resolved))
             else ''Niemand wurde hinzugefuegt (hatten evtl. schon die Rolle).'')) \<and>
     (resolved \<noteq> [] \<and>
      (\<forall>m\<in>set resolved. remove_roles_raises p (member_id m) = None \<or>
                          remove_roles_raises p (member_id m) = Some Forbidden) \<longrightarrow>
        filter is_mutation (actions (remove_member p i kurs_name members reason)) =
          map (\<lambda>m. Remove_roles (member_id m) (role_id kr) (format_reason i reason))
            (to_remove kr resolved) \<and>
        raised (remove_member p i kurs_name members reason) = None \<and>
        world (remove_member p i kurs_name members reason) =
          Some (revoke_all kr (removed p kr resolved) g) \<and>
        last (actions (remove_member p i kurs_name members reason)) =
          Followup_send
            (if removed p kr resolved \<noteq> [] then
               py_str (length (removed p kr resolved)) @ '' Mitglied(er) entfernt: '' @
               py_join '', '' (map display_name (removed p kr resolved))
             else ''Niemand wurde entfernt (hatte evtl. die Rolle nicht).'')) \<and>
     (resolved \<noteq> [] \<and> (\<forall>m\<in>set resolved. add_roles_raises p (member_id m) = None) \<longrightarrow>
        filter is_mutation
          (actions (add_member p'
             (i\<lparr>interaction_guild := world (add_member p i kurs_name members reason)\<rparr>)
             kurs_name members reason')) = [] \<and>
        world (add_member p'
             (i\<lparr>interaction_guild := world (add_member p i kurs_name members reason)\<rparr>)
             kurs_name members reason') =
          world (add_member p i kurs_name members reason)) \<and>
     (resolved \<noteq> [] \<and> (\<forall>m\<in>set resolved. remove_roles_raises p (member_id m) = None) \<longrightarrow>
        filter is_mutation
          (actions (remove_member p'
             (i\<lparr>interaction_guild := world (remove_member p i kurs_name members reason)\<rparr>)
             kurs_name members reason')) = [] \<and>
        world (remove_member p'
             (i\<lparr>interaction_guild := world (remove_member p i kurs_name members reason)\<rparr>)
             kurs_name members reason') =
          world (remove_member p i kurs_name members reason))"
  proof (intro conjI)
  show "(\<forall>m\<in>set resolved. holds kr m \<longrightarrow>
        (\<forall>a\<in>set (actions (add_member p i kurs_name members reason)).
           action_member a \<noteq> Some (member_id m)))"
  proof (intro ballI impI)
    fix m a
    assume "m \<in> set resolved" and "holds kr m"
      and "a \<in> set (actions (add_member p i kurs_name members reason))"
    with g f r show "action_member a \<noteq> Some (member_id m)"
      by (rule add_member_target_untouched)
  qed
  show "(resolved \<noteq> [] \<and>
      (\<forall>m\<in>set resolved. add_roles_raises p (member_id m) = None \<or>
                          add_roles_raises p (member_id m) = Some Forbidden) \<longrightarrow>
        filter is_mutation (actions (add_member p i kurs_name members reason)) =
          map (\<lambda>m. Add_roles (member_id m) (role_id kr) (format_reason i reason))
            (to_add kr resolved) \<and>
        raised (add_member p i kurs_name members reason) = None \<and>
        world (add_member p i kurs_name members reason) =
          Some (grant_all kr (added p kr resolved) g) \<and>
        last (actions (add_member p i kurs_name members reason)) =
          Followup_send
            (if added p kr resolved \<noteq> [] then
               py_str (length (added p kr resolved)) @ '' Mitglied(er) hinzugefuegt: '' @
               py_join '', '' (map display_name (added p kr resolved))
             else ''Niemand wurde hinzugefuegt (hatten evtl. schon die Rolle).''))"
  proof
    assume "resolved \<noteq> [] \<and>
      (\<forall>m\<in>set resolved. add_roles_raises p (member_id m) = None \<or>
                          add_roles_raises p (member_id m) = Some Forbidden)"
    then have ne: "resolved \<noteq> []"
      and ok: "\<forall>m\<in>set resolved. add_roles_raises p (member_id m) = None \<or>
                          add_roles_raises p (member_id m) = Some Forbidden" by simp_all
    from add_member_exact [OF g f r ne ok, of reason]
    show "filter is_mutation (actions (add_member p i kurs_name members reason)) =
          map (\<lambda>m. Add_roles (member_id m) (role_id kr) (format_reason i reason))
            (to_add kr resolved) \<and>
        raised (add_member p i kurs_name members reason) = None \<and>
        world (add_member p i kurs_name members reason) =
          Some (grant_all kr (added p kr resolved) g) \<and>
        last (actions (add_member p i kurs_name members reason)) =
          Followup_send
            (if added p kr resolved \<noteq> [] then
               py_str (length (added p kr resolved)) @ '' Mitglied(er) hinzugefuegt: '' @
               py_join '', '' (map display_name (added p kr resolved))
             else ''Niemand wurde hinzugefuegt (hatten evtl. schon die Rolle).'')"
      by (intro conjI)
  qed
  show "(resolved \<noteq> [] \<and> (\<forall>m\<in>set resolved. add_roles_raises p (member_id m) = None) \<longrightarrow>
        filter is_mutation
          (actions (add_member p'
             (i\<lparr>interaction_guild := world (add_member p i kurs_name members reason)\<rparr>)
             kurs_name members reason')) = [] \<and>
        world (add_member p'
             (i\<lparr>interaction_guild := world (add_member p i kurs_name members reason)\<rparr>)
             kurs_name members reason') =
          world (add_member p i kurs_name members reason))"
  proof
    assume "resolved \<noteq> [] \<and> (\<forall>m\<in>set resolved. add_roles_raises p (member_id m) = None)"
    then have ne: "resolved \<noteq> []"
      and ok: "\<forall>m\<in>set resolved. add_roles_raises p (member_id m) = None" by simp_all
    from add_member_again [OF g f r ne ok, of p' reason reason']
    show "filter is_mutation
          (actions (add_member p'
             (i\<lparr>interaction_guild := world (add_member p i kurs_name members reason)\<rparr>)
             kurs_name members reason')) = [] \<and>
        world (add_member p'
             (i\<lparr>interaction_guild := world (add_member p i kurs_name members reason)\<rparr>)
             kurs_name members reason') =
          world (add_member p i kurs_name members reason)"
      by (intro conjI)
  qed
  show "(\<forall>m\<in>set resolved. \<not> holds kr m \<longrightarrow>
        (\<forall>a\<in>set (actions (remove_member p i kurs_name members reason)).
           action_member a \<noteq> Some (member_id m)))"
  proof (intro ballI impI)
    fix m a
    assume "m \<in> set resolved" and "\<not> holds kr m"
      and "a \<in> set (actions (remove_member p i kurs_name members reason))"
    with g f r show "action_member a \<noteq> Some (member_id m)"
      by (rule remove_member_target_untouched)
  qed
  show "(resolved \<noteq> [] \<and>
      (\<forall>m\<in>set resolved. remove_roles_raises p (member_id m) = None \<or>
                          remove_roles_raises p (member_id m) = Some Forbidden) \<longrightarrow>
        filter is_mutation (actions (remove_member p i kurs_name members reason)) =
          map (\<lambda>m. Remove_roles (member_id m) (role_id kr) (format_reason i reason))
            (to_remove kr resolved) \<and>
        raised (remove_member p i kurs_name members reason) = None \<and>
        world (remove_member p i kurs_name members reason) =
          Some (revoke_all kr (removed p kr resolved) g) \<and>
        last (actions (remove_member p i kurs_name members reason)) =
          Followup_send
            (if removed p kr resolved \<noteq> [] then
               py_str (length (removed p kr resolved)) @ '' Mitglied(er) entfernt: '' @
               py_join '', '' (map display_name (removed p kr resolved))
             else ''Niemand wurde entfernt (hatte evtl. die Rolle nicht).''))"
  proof
    assume "resolved \<noteq> [] \<and>
      (\<forall>m\<in>set resolved. remove_roles_raises p (member_id m) = None \<or>
                          remove_roles_raises p (member_id m) = Some Forbidden)"
    then have ne: "resolved \<noteq> []"
      and ok: "\<forall>m\<in>set resolved. remove_roles_raises p (member_id m) = None \<or>
                          remove_roles_raises p (member_id m) = Some Forbidden" by simp_all
    from remove_member_exact [OF g f r ne ok, of reason]
    show "filter is_mutation (actions (remove_member p i kurs_name members reason)) =
          map (\<lambda>m. Remove_roles (member_id m) (role_id kr) (format_reason i reason))
            (to_remove kr resolved) \<and>
        raised (remove_member p i kurs_name members reason) = None \<and>
        world (remove_member p i kurs_name members reason) =
          Some (revoke_all kr (removed p kr resolved) g) \<and>
        last (actions (remove_member p i kurs_name members reason)) =
          Followup_send
            (if removed p kr resolved \<noteq> [] then
               py_str (length (removed p kr resolved)) @ '' Mitglied(er) entfernt: '' @
               py_join '', '' (map display_name (removed p kr resolved))
             else ''Niemand wurde entfernt (hatte evtl. die Rolle nicht).'')"
      by (intro conjI)
  qed
  show "(resolved \<noteq> [] \<and> (\<forall>m\<in>set resolved. remove_roles_raises p (member_id m) = None) \<longrightarrow>
        filter is_mutation
          (actions (remove_member p'
             (i\<lparr>interaction_guild := world (remove_member p i kurs_name members reason)\<rparr>)
             kurs_name members reason')) = [] \<and>
        world (remove_member p'
             (i\<lparr>interaction_guild := world (remove_member p i kurs_name members reason)\<rparr>)
             kurs_name members reason') =
          world (remove_member p i kurs_name members reason))"
  proof
    assume "resolved \<noteq> [] \<and> (\<forall>m\<in>set resolved. remove_roles_raises p (member_id m) = None)"
    then have ne: "resolved \<noteq> []"
      and ok: "\<forall>m\<in>set resolved. remove_roles_raises p (member_id m) = None" by simp_all
    from remove_member_again [OF g f r ne ok, of p' reason reason']
    show "filter is_mutation
          (actions (remove_member p'
             (i\<lparr>interaction_guild := world (remove_member p i kurs_name members reason)\<rparr>)
             kurs_name members reason')) = [] \<and>
        world (remove_member p'
             (i\<lparr>interaction_guild := world (remove_member p i kurs_name members reason)\<rparr>)
             kurs_name members reason') =
          world (remove_member p i kurs_name members reason)"
      by (intro conjI)
  qed
  qed
qed

lemmas enrollment_defs = add_member_def remove_member_def resolve_members_def
  extract_member_ids_def match_mention_def is_sep_def get_member_def fetch_member_def
  fetch_course_role_def normalize_course_name_def add_loop.simps remove_loop.simps
  update_member_roles_def with_roles_def format_reason_def user_str_def user_id_def
  py_str.simps Let_def

lemma example_resolved:
  "resolve_members example_guild ''7 8'' = Inr ([], [anna, ben])"
  "resolve_members example_guild ''7'' = Inr ([], [anna])"
  by (simp_all add: enrollment_defs example_defs str_defs)

lemma example_course_role:
  "fetch_course_role example_guild ''Mathe 1'' = Some \<lparr>role_id = 100, role_name = ''Mathe 1''\<rparr>"
  by (simp add: enrollment_defs example_defs str_defs)

lemma example_reason: "format_reason example_interaction None = ''Aktion von carl (9)''"
  by (simp add: enrollment_defs example_defs str_defs)

theorem enrollment_per_member_witness:
  "resolve_members example_guild ''7 8'' = Inr ([], [anna, ben]) \<and>
   holds \<lparr>role_id = 100, role_name = ''Mathe 1''\<rparr> ben \<and>
   \<not> holds \<lparr>role_id = 100, role_name = ''Mathe 1''\<rparr> anna \<and>
   filter is_mutation
     (actions (add_member permissive example_interaction ''Mathe 1'' ''7 8'' None)) =
     [Add_roles 7 100 ''Aktion von carl (9)''] \<and>
   last (actions (add_member permissive example_interaction ''Mathe 1'' ''7 8'' None)) =
     Followup_send ''1 Mitglied(er) hinzugefuegt: Anna'' \<and>
   Add_roles 8 100 ''Aktion von carl (9)'' \<notin>
     set (actions (add_member permissive example_interaction ''Mathe 1'' ''7 8'' None)) \<and>
   filter is_mutation
     (actions (add_member permissive
        (example_interaction\<lparr>interaction_guild :=
           world (add_member permissive example_interaction ''Mathe 1'' ''7 8'' None)\<rparr>)
        ''Mathe 1'' ''7 8'' None)) = [] \<and>
   filter is_mutation
     (actions (remove_member permissive example_interaction ''Mathe 1'' ''7 8'' None)) =
     [Remove_roles 8 100 ''Aktion von carl (9)''] \<and>
   Remove_roles 7 100 ''Aktion von carl (9)'' \<notin>
     set (actions (remove_member permissive example_interaction ''Mathe 1'' ''7 8'' None)) \<and>
   filter is_mutation
     (actions (remove_member permissive
        (example_interaction\<lparr>interaction_guild :=
           world (remove_member permissive example_interaction ''Mathe 1'' ''7 8'' None)\<rparr>)
        ''Mathe 1'' ''7 8'' None)) = []"
proof -
  let ?kr = "\<lparr>role_id = 100, role_name = ''Mathe 1''\<rparr>"
  let ?run = "add_member permissive example_interaction ''Mathe 1'' ''7 8'' None"
  have g: "interaction_guild example_interaction = Some example_guild"
    by (simp add: example_interaction_def)
  note f = example_course_role and r = example_resolved(1)
  have hb: "holds ?kr ben" and ha: "\<not> holds ?kr anna"
    by (simp_all add: holds_def ben_def anna_def)
  have ne: "[anna, ben] \<noteq> []" by simp
  have ok: "\<forall>m\<in>set [anna, ben]. add_roles_raises permissive (member_id m) = None"
    "\<forall>m\<in>set [anna, ben]. remove_roles_raises permissive (member_id m) = None"
    by (simp_all add: permissive_def)
  have sets: "to_add ?kr [anna, ben] = [anna]" "added permissive ?kr [anna, ben] = [anna]"
    "to_remove ?kr [anna, ben] = [ben]"
    using ha hb by (simp_all add: to_add_def added_def to_remove_def permissive_def)
  have ids: "member_id anna = 7" "member_id ben = 8" "display_name anna = ''Anna''"
    by (simp_all add: anna_def ben_def)
  have okF: "\<forall>m\<in>set [anna, ben]. add_roles_raises permissive (member_id m) = None \<or>
      add_roles_raises permissive (member_id m) = Some Forbidden"
    "\<forall>m\<in>set [anna, ben]. remove_roles_raises permissive (member_id m) = None \<or>
      remove_roles_raises permissive (member_id m) = Some Forbidden"
    by (simp_all add: permissive_def)
  from g f r have h: "interaction_guild example_interaction = Some example_guild \<and>
      fetch_course_role example_guild ''Mathe 1'' = Some ?kr \<and>
      resolve_members example_guild ''7 8'' = Inr ([], [anna, ben])" by simp
  note inst = enrollment_per_member [of example_interaction example_guild "''Mathe 1''" ?kr
      "''7 8''" "[]" "[anna, ben]" permissive None permissive None, THEN mp, OF h]
  note target = inst [THEN conjunct1]
  note exact_add = inst [THEN conjunct2, THEN conjunct2, THEN conjunct1, THEN mp,
      OF conjI [OF ne okF(1)]]
  note exact_remove = inst [THEN conjunct2, THEN conjunct2, THEN conjunct2, THEN conjunct1,
      THEN mp, OF conjI [OF ne okF(2)]]
  note again = inst [THEN conjunct2, THEN conjunct2, THEN conjunct2, THEN conjunct2,
      THEN conjunct1, THEN mp, OF conjI [OF ne ok(1)]]
  note a = exact_add [THEN conjunct1]
  note b = exact_add [THEN conjunct2, THEN conjunct2, THEN conjunct2]
  note c = again [THEN conjunct1]
  note d = exact_remove [THEN conjunct1]
  have "ben \<in> set [anna, ben]" by simp
  from target [THEN bspec, OF this, THEN mp, OF hb]
  have e: "\<forall>a\<in>set (actions ?run). action_member a \<noteq> Some (member_id ben)" .
  have e': "Add_roles 8 100 ''Aktion von carl (9)'' \<notin> set (actions ?run)"
  proof
    assume "Add_roles 8 100 ''Aktion von carl (9)'' \<in> set (actions ?run)"
    with e have "action_member (Add_roles 8 100 ''Aktion von carl (9)'') \<noteq> Some (member_id ben)"
      by blast
    then show False by (simp add: action_member_simps ids)
  qed
  from a have a': "filter is_mutation (actions ?run) = [Add_roles 7 100 ''Aktion von carl (9)'']"
    by (simp add: sets ids example_reason)
  from b have b': "last (actions ?run) = Followup_send ''1 Mitglied(er) hinzugefuegt: Anna''"
    by (simp add: sets ids py_str.simps digit_char_def)
  from d have d': "filter is_mutation
     (actions (remove_member permissive example_interaction ''Mathe 1'' ''7 8'' None)) =
     [Remove_roles 8 100 ''Aktion von carl (9)'']"
    by (simp add: sets ids example_reason)
  note target_remove = inst [THEN conjunct2, THEN conjunct1]
  note again_remove = inst [THEN conjunct2, THEN conjunct2, THEN conjunct2, THEN conjunct2,
      THEN conjunct2, THEN mp, OF conjI [OF ne ok(2)]]
  note c2 = again_remove [THEN conjunct1]
  have "anna \<in> set [anna, ben]" by simp
  from target_remove [THEN bspec, OF this, THEN mp, OF ha]
  have e2: "\<forall>a\<in>set (actions
      (remove_member permissive example_interaction ''Mathe 1'' ''7 8'' None)).
      action_member a \<noteq> Some (member_id anna)" .
  have e2': "Remove_roles 7 100 ''Aktion von carl (9)'' \<notin>
     set (actions (remove_member permissive example_interaction ''Mathe 1'' ''7 8'' None))"
  proof
    assume "Remove_roles 7 100 ''Aktion von carl (9)'' \<in>
      set (actions (remove_member permissive example_interaction ''Mathe 1'' ''7 8'' None))"
    with e2 have "action_member (Remove_roles 7 100 ''Aktion von carl (9)'') \<noteq>
        Some (member_id anna)"
      by blast
    then show False by (simp add: action_member_simps ids)
  qed
  from r hb ha a' b' e' c d' e2' c2 show ?thesis by (intro conjI)
qed

text \<open>
  The claim as stated fails where the platform refuses the change: \<open>anna\<close> is resolved and
  does not hold the course role, the call on her raises \<^verbatim>\<open>discord.Forbidden\<close>, and she is
  neither changed nor counted.
\<close>

theorem enrollment_forbidden_counterexample:
  "resolve_members example_guild ''7'' = Inr ([], [anna]) \<and>
   \<not> holds \<lparr>role_id = 100, role_name = ''Mathe 1''\<rparr> anna \<and>
   add_member no_role_permission example_interaction ''Mathe 1'' ''7'' None =
     \<lparr>actions =
        [Defer,
         Add_roles 7 100 ''Aktion von carl (9)'',
         Log_warning ''Rolle konnte nicht an anna vergeben werden (fehlende Berechtigung)'',
         Followup_send ''Niemand wurde hinzugefuegt (hatten evtl. schon die Rolle).''],
      world = Some example_guild, raised = None\<rparr>"
proof (intro conjI)
  show "resolve_members example_guild ''7'' = Inr ([], [anna])" by (rule example_resolved)
  show "\<not> holds \<lparr>role_id = 100, role_name = ''Mathe 1''\<rparr> anna"
    by (simp add: holds_def anna_def)
  show "add_member no_role_permission example_interaction ''Mathe 1'' ''7'' None =
     \<lparr>actions =
        [Defer,
         Add_roles 7 100 ''Aktion von carl (9)'',
         Log_warning ''Rolle konnte nicht an anna vergeben werden (fehlende Berechtigung)'',
         Followup_send ''Niemand wurde hinzugefuegt (hatten evtl. schon die Rolle).''],
      world = Some example_guild, raised = None\<rparr>"
    by (simp add: enrollment_defs example_defs str_defs)
qed

end
